theory Spec2Isabelle
  imports Main "HOL-Library.Word" "HOL-Library.AList"
begin

unbundle bit_operations_syntax

text \<open>
  A model of \<^verbatim>\<open>tunic.py\<close>, the installer of a TUIC relay: the runtime settings and the three
  client exporters as functions, the install workflow as a program over a file system that
  lists what it does to the host. The properties proved are those of the specification
  of the installer, numbered C1 to C10.
\<close>

section \<open>Python values used by tunic.py\<close>

text \<open>
  Strings are character lists. The characters that cannot be written inside a string
  literal get names.
\<close>

definition nl :: char where "nl = CHR 0x0A"
definition dq :: char where "dq = CHR 0x22"
definition sq :: char where "sq = CHR 0x27"
definition bsl :: char where "bsl = CHR 0x5C"

text \<open>\<^verbatim>\<open>str(n)\<close> for a Python int: decimal digits, a minus sign for negatives.\<close>

definition digit_char :: "nat \<Rightarrow> char" where
  "digit_char d = ''0123456789'' ! d"

fun digits :: "nat \<Rightarrow> string" where
  "digits n = (if n < 10 then [digit_char n] else digits (n div 10) @ [digit_char (n mod 10)])"

definition py_str_int :: "int \<Rightarrow> string" where
  "py_str_int i = (if i < 0 then CHR ''-'' # digits (nat (- i)) else digits (nat i))"

definition py_str_bool :: "bool \<Rightarrow> string" where
  "py_str_bool b = (if b then ''True'' else ''False'')"

text \<open>Lower-case hexadecimal, as \<^verbatim>\<open>'%0Nx' % v\<close> prints it: \<open>n\<close> digits, most significant first.\<close>

definition hexdigit :: "nat \<Rightarrow> char" where
  "hexdigit d = ''0123456789abcdef'' ! d"

definition hex_width :: "nat \<Rightarrow> nat \<Rightarrow> string" where
  "hex_width n v = map (\<lambda>i. hexdigit ((v div 16 ^ (n - 1 - i)) mod 16)) [0..<n]"

definition is_hex :: "char \<Rightarrow> bool" where
  "is_hex c = (c \<in> set ''0123456789abcdef'')"

text \<open>
  \<^verbatim>\<open>repr(s)\<close> of an ASCII string: single quotes unless the string has a single quote and
  no double quote; the quote and the backslash are escaped, tab, newline and carriage
  return get their letters, other control characters a \<^verbatim>\<open>\xNN\<close> escape.
\<close>

definition repr_char :: "char \<Rightarrow> char \<Rightarrow> string" where
  "repr_char q c =
     (if c = q \<or> c = bsl then [bsl, c]
      else if c = CHR 0x09 then [bsl, CHR ''t'']
      else if c = nl then [bsl, CHR ''n'']
      else if c = CHR 0x0D then [bsl, CHR ''r'']
      else if of_char c < (32::nat) \<or> of_char c = (127::nat)
        then [bsl, CHR ''x''] @ hex_width 2 (of_char c)
      else [c])"

definition py_repr_str :: "string \<Rightarrow> string" where
  "py_repr_str s =
     (let q = (if sq \<in> set s \<and> dq \<notin> set s then dq else sq)
      in q # concat (map (repr_char q) s) @ [q])"

text \<open>
  \<^verbatim>\<open>sep.join(xs)\<close>, \<^verbatim>\<open>s.split(c)\<close> on one character, \<^verbatim>\<open>s.strip()\<close> (of the ASCII
  characters, those \<^verbatim>\<open>str.isspace\<close> accepts), \<^verbatim>\<open>s.startswith(p)\<close> and \<^verbatim>\<open>a in b\<close>.
\<close>

fun join :: "string \<Rightarrow> string list \<Rightarrow> string" where
  "join sep [] = []"
| "join sep [x] = x"
| "join sep (x # y # ys) = x @ sep @ join sep (y # ys)"

fun split_on :: "char \<Rightarrow> string \<Rightarrow> string list" where
  "split_on c [] = [[]]"
| "split_on c (x # xs) =
     (if x = c then [] # split_on c xs
      else (case split_on c xs of [] \<Rightarrow> [[x]] | w # ws \<Rightarrow> (x # w) # ws))"

definition is_space :: "char \<Rightarrow> bool" where
  "is_space c = (c \<in> {CHR '' '', CHR 0x09, CHR 0x0A, CHR 0x0B, CHR 0x0C, CHR 0x0D,
                       CHR 0x1C, CHR 0x1D, CHR 0x1E, CHR 0x1F})"

definition strip :: "string \<Rightarrow> string" where
  "strip s = rev (dropWhile is_space (rev (dropWhile is_space s)))"

fun startswith :: "string \<Rightarrow> string \<Rightarrow> bool" where
  "startswith s [] = True"
| "startswith [] (p # ps) = False"
| "startswith (x # xs) (p # ps) = (x = p \<and> startswith xs ps)"

fun contains :: "string \<Rightarrow> string \<Rightarrow> bool" where
  "contains sub [] = (sub = [])"
| "contains sub (x # xs) = (startswith (x # xs) sub \<or> contains sub xs)"

definition py_str_list :: "string list \<Rightarrow> string" where
  "py_str_list xs = ''['' @ join '', '' (map py_repr_str xs) @ '']''"

text \<open>The values a \<^verbatim>\<open>Dict[str, Any]\<close> of this program holds.\<close>

datatype pyval = PStr string | PInt int | PBool bool | PList "string list" | PNone

type_synonym pydict = "(string \<times> pyval) list"

definition drop_none :: "pydict \<Rightarrow> pydict" where
  "drop_none d = filter (\<lambda>(k, v). v \<noteq> PNone) d"

definition opt_str :: "string option \<Rightarrow> pyval" where
  "opt_str x = (case x of None \<Rightarrow> PNone | Some s \<Rightarrow> PStr s)"

definition opt_int :: "int option \<Rightarrow> pyval" where
  "opt_int x = (case x of None \<Rightarrow> PNone | Some s \<Rightarrow> PInt s)"

definition opt_bool :: "bool option \<Rightarrow> pyval" where
  "opt_bool x = (case x of None \<Rightarrow> PNone | Some s \<Rightarrow> PBool s)"

definition opt_list :: "string list option \<Rightarrow> pyval" where
  "opt_list x = (case x of None \<Rightarrow> PNone | Some s \<Rightarrow> PList s)"

text \<open>\<^verbatim>\<open>x or d\<close> on an optional list and on an optional string.\<close>

definition list_or :: "string list option \<Rightarrow> string list \<Rightarrow> string list" where
  "list_or x d = (case x of None \<Rightarrow> d | Some [] \<Rightarrow> d | Some xs \<Rightarrow> xs)"

definition str_or :: "string option \<Rightarrow> string \<Rightarrow> string" where
  "str_or x d = (case x of None \<Rightarrow> d | Some [] \<Rightarrow> d | Some s \<Rightarrow> s)"

section \<open>Runtime settings: User, ServerConfig, ClientRelay\<close>

record User =
  username :: string
  password :: string

text \<open>
  \<^verbatim>\<open>uuid4()\<close> sets the variant and version bits of 16 random bytes, and \<^verbatim>\<open>str\<close> prints
  the 32 hex digits in groups of 8-4-4-4-12. \<^verbatim>\<open>secrets.token_hex()\<close> prints 32 random
  bytes as 64 hex digits. The random bytes are the arguments.
\<close>

definition uuid4 :: "128 word \<Rightarrow> 128 word" where
  "uuid4 r =
     (let i1 = r AND NOT (push_bit 48 0xc000);
          i2 = i1 OR push_bit 48 0x8000;
          i3 = i2 AND NOT (push_bit 64 0xf000)
      in i3 OR push_bit 76 4)"

definition str_uuid :: "128 word \<Rightarrow> string" where
  "str_uuid u =
     (let h = hex_width 32 (unat u)
      in take 8 h @ ''-'' @ take 4 (drop 8 h) @ ''-'' @ take 4 (drop 12 h) @ ''-''
         @ take 4 (drop 16 h) @ ''-'' @ drop 20 h)"

definition token_hex :: "256 word \<Rightarrow> string" where
  "token_hex r = hex_width 64 (unat r)"

definition User_gen :: "128 word \<Rightarrow> 256 word \<Rightarrow> User" where
  "User_gen r1 r2 = \<lparr>username = str_uuid (uuid4 r1), password = take 16 (token_hex r2)\<rparr>"

definition uuid_shaped :: "string \<Rightarrow> bool" where
  "uuid_shaped s =
     (length s = 36 \<and>
      list_all is_hex (take 8 s) \<and> s ! 8 = CHR ''-'' \<and>
      list_all is_hex (take 4 (drop 9 s)) \<and> s ! 13 = CHR ''-'' \<and>
      list_all is_hex (take 4 (drop 14 s)) \<and> s ! 18 = CHR ''-'' \<and>
      list_all is_hex (take 4 (drop 19 s)) \<and> s ! 23 = CHR ''-'' \<and>
      list_all is_hex (drop 24 s))"

record ServerConfig =
  sc_server :: string
  sc_users :: "(string \<times> string) list"
  sc_certificate :: string
  sc_private_key :: string
  sc_congestion_control :: string
  sc_alpn :: "string list option"
  sc_udp_relay_ipv6 :: bool
  sc_zero_rtt_handshake :: bool
  sc_dual_stack :: "bool option"
  sc_auth_timeout :: string
  sc_task_negotiation_timeout :: string
  sc_max_idle_time :: string
  sc_max_external_packet_size :: int
  sc_send_window :: int
  sc_receive_window :: int
  sc_gc_interval :: string
  sc_gc_lifetime :: string
  sc_log_level :: string

text \<open>
  The dataclass constructor stores its arguments and calls \<^verbatim>\<open>__post_init__\<close>: a
  constructed ServerConfig is \<open>ServerConfig_post_init\<close> of the record of the arguments.
\<close>

definition ServerConfig_post_init :: "ServerConfig \<Rightarrow> ServerConfig" where
  "ServerConfig_post_init self =
     self\<lparr>sc_server := (if sc_server self = [] then ''[::]:443'' else sc_server self),
          sc_alpn := Some (list_or (sc_alpn self) [''h3'', ''spdy/3.1''])\<rparr>"

datatype users_arg = One User | Many "User list"

definition users_dict :: "User list \<Rightarrow> (string \<times> string) list" where
  "users_dict us = foldl (\<lambda>d u. AList.update (username u) (password u) d) [] us"

definition ServerConfig_from_automation ::
  "users_arg \<Rightarrow> string \<Rightarrow> string \<Rightarrow> int \<Rightarrow> ServerConfig" where
  "ServerConfig_from_automation users path_fullchain path_privkey server_port =
     (let us = (case users of One u \<Rightarrow> [u] | Many l \<Rightarrow> l);
          server = ''[::]:'' @ py_str_int server_port
      in ServerConfig_post_init
           \<lparr>sc_server = server, sc_users = users_dict us,
            sc_certificate = path_fullchain, sc_private_key = path_privkey,
            sc_congestion_control = ''bbr'', sc_alpn = Some [],
            sc_udp_relay_ipv6 = True, sc_zero_rtt_handshake = True,
            sc_dual_stack = None, sc_auth_timeout = ''3s'',
            sc_task_negotiation_timeout = ''3s'', sc_max_idle_time = ''10s'',
            sc_max_external_packet_size = 1500, sc_send_window = 16777216,
            sc_receive_window = 8388608, sc_gc_interval = ''3s'',
            sc_gc_lifetime = ''15s'', sc_log_level = ''warn''\<rparr>)"

record ClientRelay =
  cr_server :: string
  cr_uuid :: string
  cr_password :: string
  cr_ip :: "string option"
  cr_certificates :: "string list option"
  cr_udp_relay_mode :: string
  cr_congestion_control :: string
  cr_alpn :: "string list option"
  cr_zero_rtt_handshake :: bool
  cr_send_window :: int
  cr_receive_window :: int
  cr_gc_interval :: string
  cr_gc_lifetime :: string

definition ClientRelay_post_init :: "ClientRelay \<Rightarrow> ClientRelay" where
  "ClientRelay_post_init self =
     self\<lparr>cr_alpn := Some (list_or (cr_alpn self) [''h3'', ''spdy/3.1'']),
          cr_certificates := None\<rparr>"

definition ClientRelay_copy_from_server ::
  "string \<Rightarrow> User \<Rightarrow> ServerConfig \<Rightarrow> int \<Rightarrow> ClientRelay" where
  "ClientRelay_copy_from_server domain user sc server_port =
     (let server = domain @ '':'' @ py_str_int server_port
      in ClientRelay_post_init
           \<lparr>cr_server = server, cr_uuid = username user, cr_password = password user,
            cr_ip = None, cr_certificates = Some [], cr_udp_relay_mode = ''quic'',
            cr_congestion_control = sc_congestion_control sc,
            cr_alpn = sc_alpn sc, cr_zero_rtt_handshake = True,
            cr_send_window = sc_send_window sc, cr_receive_window = sc_receive_window sc,
            cr_gc_interval = sc_gc_interval sc, cr_gc_lifetime = sc_gc_lifetime sc\<rparr>)"

section \<open>The three exporters\<close>

record ClientLocal =
  cl_server :: string
  cl_username :: "string option"
  cl_password :: "string option"
  cl_dual_stack :: "bool option"
  cl_max_packet_size :: "int option"

definition ClientLocal_dict :: "ClientLocal \<Rightarrow> pydict" where
  "ClientLocal_dict l =
     [(''server'', PStr (cl_server l)), (''username'', opt_str (cl_username l)),
      (''password'', opt_str (cl_password l)), (''dual_stack'', opt_bool (cl_dual_stack l)),
      (''max_packet_size'', opt_int (cl_max_packet_size l))]"

definition ClientRelay_dict :: "ClientRelay \<Rightarrow> pydict" where
  "ClientRelay_dict r =
     [(''server'', PStr (cr_server r)), (''uuid'', PStr (cr_uuid r)),
      (''password'', PStr (cr_password r)), (''ip'', opt_str (cr_ip r)),
      (''certificates'', opt_list (cr_certificates r)),
      (''udp_relay_mode'', PStr (cr_udp_relay_mode r)),
      (''congestion_control'', PStr (cr_congestion_control r)),
      (''alpn'', opt_list (cr_alpn r)),
      (''zero_rtt_handshake'', PBool (cr_zero_rtt_handshake r)),
      (''send_window'', PInt (cr_send_window r)),
      (''receive_window'', PInt (cr_receive_window r)),
      (''gc_interval'', PStr (cr_gc_interval r)),
      (''gc_lifetime'', PStr (cr_gc_lifetime r))]"

record NekoRayConfig =
  nk_relay :: pydict
  nk_local :: pydict
  nk_log_level :: string

text \<open>
  \<^verbatim>\<open>NekoRayConfig.from_server\<close> assigns to two attributes of the relay object it is
  given, so the exporters return the relay next to the artifact.
\<close>

definition NekoRayConfig_from_server ::
  "ClientRelay \<Rightarrow> string \<Rightarrow> int \<Rightarrow> string option \<Rightarrow> NekoRayConfig \<times> ClientRelay" where
  "NekoRayConfig_from_server relay server_addr server_port server_ip =
     (let local = \<lparr>cl_server = ''127.0.0.1:%socks_port%'', cl_username = None,
                   cl_password = None, cl_dual_stack = None, cl_max_packet_size = Some 1500\<rparr>;
          relay1 = relay\<lparr>cr_server := server_addr @ '':'' @ py_str_int server_port\<rparr>;
          relay2 = (case server_ip of None \<Rightarrow> relay1 | Some ip \<Rightarrow> relay1\<lparr>cr_ip := Some ip\<rparr>)
      in (\<lparr>nk_relay = drop_none (ClientRelay_dict relay2),
           nk_local = drop_none (ClientLocal_dict local),
           nk_log_level = ''warn''\<rparr>, relay2))"

text \<open>The two template constants of the Clash.Meta document.\<close>

definition unlines :: "string list \<Rightarrow> string" where
  "unlines ls = concat (map (\<lambda>l. l @ [nl]) ls)"

definition TEMPLATE_META_CONFIG :: string where
  "TEMPLATE_META_CONFIG = nl # unlines
     [''dns:'',
      ''  enable: true'',
      ''  prefer-h3: true'',
      ''  enhanced-mode: fake-ip'',
      ''  nameserver:'',
      ''    - '' @ [dq] @ ''https://dns.google/dns-query#PROXY'' @ [dq],
      ''    - '' @ [dq] @ ''https://security.cloudflare-dns.com/dns-query#PROXY'' @ [dq],
      ''    - '' @ [dq] @ ''quic://dns.adguard-dns.com'' @ [dq],
      ''  proxy-server-nameserver:'',
      ''    - '' @ [dq] @ ''https://223.5.5.5/dns-query'' @ [dq],
      ''  nameserver-policy:'',
      ''    '' @ [dq] @ ''geosite:cn'' @ [dq] @ '':'',
      ''      - '' @ [dq] @ ''https://223.5.5.5/dns-query#h3=true'' @ [dq],
      ''rules:'',
      ''  - GEOSITE,category-scholar-!cn,PROXY'',
      ''  - GEOSITE,category-ads-all,REJECT'',
      ''  - GEOSITE,youtube,PROXY'',
      ''  - GEOSITE,google,PROXY'',
      ''  - GEOSITE,cn,DIRECT'',
      ''  - GEOSITE,private,DIRECT'',
      ''  # - GEOSITE,tracker,DIRECT'',
      ''  - GEOSITE,steam@cn,DIRECT'',
      ''  - GEOSITE,category-games@cn,DIRECT'',
      ''  - GEOSITE,geolocation-!cn,PROXY'',
      ''  - GEOIP,private,DIRECT,no-resolve'',
      ''  - GEOIP,telegram,PROXY'',
      ''  - GEOIP,CN,DIRECT'',
      ''  - DST-PORT,80/8080/443/8443,PROXY'',
      ''  - MATCH,DIRECT'']"

definition TEMPLATE_META_PROXY_ADDONS :: "string \<Rightarrow> string \<Rightarrow> string" where
  "TEMPLATE_META_PROXY_ADDONS proxy proxy_group =
     nl # unlines [''proxies:'', ''  - '' @ proxy, ''proxy-groups:'', ''  - '' @ proxy_group]"

record ClashMetaConfig =
  contents :: string

definition from_string_to_yaml :: "string \<Rightarrow> string" where
  "from_string_to_yaml s =
     (let suffix = '', '';
          fs = join suffix (map strip (filter (\<lambda>i. i \<noteq> []) (split_on nl s)));
          fs = take (length fs - length suffix) fs
      in ''{ '' @ fs @ '' }'')"

definition remove_empty_lines :: "string \<Rightarrow> string" where
  "remove_empty_lines s = join [nl] (filter (\<lambda>line. strip line \<noteq> []) (split_on nl s))"

text \<open>
  The two f-strings of \<^verbatim>\<open>ClashMetaConfig.from_server\<close> are a newline, one line
  \<^verbatim>\<open>key: value\<close> per entry behind eight spaces, and the eight spaces before the closing
  quotes. \<open>ClashMeta_proxy\<close> lists the entries of the first with the values
  interpolated.
\<close>

definition fstring_block :: "(string \<times> string) list \<Rightarrow> string" where
  "fstring_block kvs =
     nl # concat (map (\<lambda>(k, v). ''        '' @ k @ '': '' @ v @ [nl]) kvs) @ ''        ''"

definition py_str_alpn :: "string list option \<Rightarrow> string" where
  "py_str_alpn a = (case a of None \<Rightarrow> ''None'' | Some xs \<Rightarrow> py_str_list xs)"

definition ClashMeta_proxy ::
  "ClientRelay \<Rightarrow> string \<Rightarrow> int \<Rightarrow> string option \<Rightarrow> (string \<times> string) list" where
  "ClashMeta_proxy relay server_addr server_port server_ip =
     [(''name'', [dq] @ ''tunic'' @ [dq]),
      (''type'', ''tuic''),
      (''server'', server_addr),
      (''port'', py_str_int server_port),
      (''uuid'', cr_uuid relay),
      (''password'', [dq] @ cr_password relay @ [dq]),
      (''ip'', str_or server_ip ''''),
      (''udp-relay-mode'', cr_udp_relay_mode relay),
      (''congestion-controller'', cr_congestion_control relay),
      (''alpn'', py_str_alpn (cr_alpn relay)),
      (''reduce-rtt'', py_str_bool (cr_zero_rtt_handshake relay)),
      (''max-udp-relay-packet-size'', ''1464'')]"

definition ClashMeta_proxy_group :: "(string \<times> string) list" where
  "ClashMeta_proxy_group =
     [(''name'', ''PROXY''), (''type'', ''select''),
      (''proxies'', ''['' @ [dq] @ ''tunic'' @ [dq] @ '']'')]"

definition ClashMetaConfig_from_server ::
  "ClientRelay \<Rightarrow> string \<Rightarrow> int \<Rightarrow> string option \<Rightarrow> ClashMetaConfig \<times> ClientRelay" where
  "ClashMetaConfig_from_server relay server_addr server_port server_ip =
     (let proxy = from_string_to_yaml
                    (fstring_block (ClashMeta_proxy relay server_addr server_port server_ip));
          proxy_group = from_string_to_yaml (fstring_block ClashMeta_proxy_group);
          addons = TEMPLATE_META_PROXY_ADDONS proxy proxy_group
      in (\<lparr>contents = remove_empty_lines (TEMPLATE_META_CONFIG @ addons)\<rparr>, relay))"

record SingBoxConfig =
  sb_type :: string
  sb_tag :: string
  sb_server :: string
  sb_server_port :: int
  sb_uuid :: string
  sb_password :: string
  sb_congestion_control :: string
  sb_udp_relay_mode :: string
  sb_zero_rtt_handshake :: bool
  sb_tls :: pydict

definition SingBoxConfig_from_server ::
  "ClientRelay \<Rightarrow> string \<Rightarrow> int \<Rightarrow> string option \<Rightarrow> SingBoxConfig \<times> ClientRelay" where
  "SingBoxConfig_from_server relay server_addr server_port server_ip =
     (\<lparr>sb_type = ''tuic'', sb_tag = ''tuic-out'',
       sb_server = str_or server_ip '''',
       sb_server_port = server_port,
       sb_uuid = cr_uuid relay, sb_password = cr_password relay,
       sb_congestion_control = cr_congestion_control relay,
       sb_udp_relay_mode = cr_udp_relay_mode relay,
       sb_zero_rtt_handshake = cr_zero_rtt_handshake relay,
       sb_tls = [(''enabled'', PBool True), (''disable_sni'', PBool False),
                 (''server_name'', PStr server_addr), (''insecure'', PBool False),
                 (''alpn'', opt_list (cr_alpn relay))]\<rparr>, relay)"

section \<open>Effects\<close>

text \<open>
  What the script does to the host is a list of events, in order, and a file system. What
  the host answers (bind probes, DNS, the public-IP service, the certificate tool, random
  bytes, the download, the service state) is the environment of one run. The script runs
  as root on Linux (it exits at once otherwise). Logging is left out, and so are the
  parents of a path: a write does not ask for the directory.
\<close>

datatype proto = Tcp | Udp

datatype fcontent =
    Text string
  | Binary
  | ServerJson ServerConfig
  | NekoJson NekoRayConfig
  | SingJson SingBoxConfig

datatype node = Dir | File fcontent

type_synonym fs = "string \<Rightarrow> node option"

datatype shown =
    ShowNekoRay string string NekoRayConfig
  | ShowMetaPath string
  | ShowMetaText fcontent
  | ShowSingBox SingBoxConfig

datatype event =
    Bind proto int
  | Input
  | GetAddrInfo string
  | UrlOpen string
  | UrlRetrieve string string
  | OsSystem string
  | Popen string
  | Uuid4
  | TokenHex
  | Shuffle
  | MakeDirs string
  | RmTree string
  | WriteText string fcontent
  | AppendText string string
  | Sleep
  | Print shown
  | Execl string
  | Enter string

text \<open>
  \<open>Enter\<close> marks the entry of a method, for the claims that count calls. Every
  \<^verbatim>\<open>sys.exit()\<close> of the script follows a check; the tag names the check.
\<close>

datatype fatal = PortRangeError | PortInUseError | ValidationError | RateLimitError

datatype exn =
    OverflowError
  | FileNotFoundError
  | FileExistsError
  | IsADirectoryError
  | URLError
  | ValueError
  | AttributeError
  | DecodeError

datatype abort = SysExit fatal | Raised exn | Replaced | Diverges

type_synonym 'a prog = "fs \<Rightarrow> (abort + 'a) \<times> fs \<times> event list"

definition return :: "'a \<Rightarrow> 'a prog" where
  "return a s = (Inr a, s, [])"

definition fail :: "abort \<Rightarrow> 'a prog" where
  "fail e s = (Inl e, s, [])"

definition emit :: "event \<Rightarrow> unit prog" where
  "emit e s = (Inr (), s, [e])"

definition bind :: "'a prog \<Rightarrow> ('a \<Rightarrow> 'b prog) \<Rightarrow> 'b prog" where
  "bind m f s =
     (case m s of
        (Inl e, s1, es) \<Rightarrow> (Inl e, s1, es)
      | (Inr a, s1, es) \<Rightarrow> (case f a s1 of (r, s2, es2) \<Rightarrow> (r, s2, es @ es2)))"

definition seq :: "unit prog \<Rightarrow> 'b prog \<Rightarrow> 'b prog" where
  "seq m k = bind m (\<lambda>_. k)"

definition outcome :: "(abort + 'a) \<times> fs \<times> event list \<Rightarrow> abort + 'a" where
  "outcome x = fst x"

definition fs_of :: "(abort + 'a) \<times> fs \<times> event list \<Rightarrow> fs" where
  "fs_of x = fst (snd x)"

definition events :: "(abort + 'a) \<times> fs \<times> event list \<Rightarrow> event list" where
  "events x = snd (snd x)"

text \<open>File operations of \<^verbatim>\<open>pathlib\<close>, \<^verbatim>\<open>os\<close> and \<^verbatim>\<open>shutil\<close>.\<close>

definition path_exists :: "string \<Rightarrow> bool prog" where
  "path_exists p s = (Inr (s p \<noteq> None), s, [])"

definition is_dir :: "string \<Rightarrow> bool prog" where
  "is_dir p s = (Inr (s p = Some Dir), s, [])"

definition joinpath :: "string \<Rightarrow> string \<Rightarrow> string" where
  "joinpath p k = p @ ''/'' @ k"

definition write_text :: "string \<Rightarrow> fcontent \<Rightarrow> unit prog" where
  "write_text p c s = (Inr (), s(p \<mapsto> File c), [WriteText p c])"

definition makedirs_exist_ok :: "string \<Rightarrow> unit prog" where
  "makedirs_exist_ok p s =
     (case s p of
        None \<Rightarrow> (Inr (), s(p \<mapsto> Dir), [MakeDirs p])
      | Some Dir \<Rightarrow> (Inr (), s, [MakeDirs p])
      | Some (File c) \<Rightarrow> (Inl (Raised FileExistsError), s, [MakeDirs p]))"

definition rmtree_ignore_errors :: "string \<Rightarrow> unit prog" where
  "rmtree_ignore_errors p s =
     (Inr (), (\<lambda>q. if q = p \<or> startswith q (p @ ''/'') then None else s q), [RmTree p])"

record env =
  bindable :: "proto \<Rightarrow> int \<Rightarrow> bool"
  randbelow :: "nat \<Rightarrow> nat"
  urandom16 :: "128 word"
  token_bytes32 :: "256 word"
  home :: string
  stdin_line :: string
  getaddrinfo :: "string \<Rightarrow> string option"
  ifconfig_me :: "string option"
  listdir :: "string \<Rightarrow> string list"
  certbot_stderr :: "string option"
  download_failures :: "nat option"
  is_active_stdout :: string

text \<open>
  \<open>bindable\<close>: whether \<^verbatim>\<open>bind(("0.0.0.0", port))\<close> succeeds, for a port the socket
  layer accepts. \<open>randbelow\<close>: the random index \<^verbatim>\<open>random.shuffle\<close> draws at each
  position. \<open>getaddrinfo\<close>: the address of the last entry, or \<open>None\<close> for
  \<^verbatim>\<open>socket.gaierror\<close>. \<open>ifconfig_me\<close>: the body the public-IP service answers, or
  \<open>None\<close> when \<^verbatim>\<open>urlopen\<close> raises. \<open>certbot_stderr\<close>: what the certificate tool
  writes to its diagnostic stream, or \<open>None\<close> when the tool cannot be started
  (\<^verbatim>\<open>Popen\<close> raises). \<open>download_failures\<close>: how many times \<^verbatim>\<open>urlretrieve\<close> raises
  \<^verbatim>\<open>OSError\<close> before it succeeds, \<open>None\<close> when it raises every time.
\<close>

section \<open>Project: paths and the listening port\<close>

record Project =
  p_server_ip :: string
  p_server_port :: int

definition workstation :: string where "workstation = ''/home/tuic-server''"
definition executable :: string where "executable = joinpath workstation ''tuic''"
definition server_config :: string where
  "server_config = joinpath workstation ''server_config.json''"
definition client_nekoray_config :: string where
  "client_nekoray_config = joinpath workstation ''nekoray_config.json''"
definition client_meta_config :: string where
  "client_meta_config = joinpath workstation ''meta_config.yaml''"
definition client_singbox_config :: string where
  "client_singbox_config = joinpath workstation ''singbox_config.json''"
definition service_path :: string where
  "service_path = ''/etc/systemd/system/tuic.service''"
definition path_bash_aliases :: "env \<Rightarrow> string" where
  "path_bash_aliases env = joinpath (home env) ''.bashrc''"
definition URL :: string where
  "URL = ''https://github.com/EAimTY/tuic/releases/download/tuic-server-1.0.0/tuic-server-1.0.0-x86_64-unknown-linux-gnu''"

definition Project_init :: "Project prog" where
  "Project_init =
     seq (makedirs_exist_ok workstation) (return \<lparr>p_server_ip = [], p_server_port = - 1\<rparr>)"

text \<open>
  \<^verbatim>\<open>is_port_in_used\<close>: the bind raises \<^verbatim>\<open>OverflowError\<close> for a port outside 0..65535,
  which \<^verbatim>\<open>suppress(socket.error)\<close> lets through.
\<close>

definition is_port_in_used :: "env \<Rightarrow> int \<Rightarrow> proto \<Rightarrow> bool prog" where
  "is_port_in_used env port pr =
     seq (emit (Bind pr port))
       (if 0 \<le> port \<and> port \<le> 65535 then return (\<not> bindable env pr port)
        else fail (Raised OverflowError))"

text \<open>\<^verbatim>\<open>random.shuffle\<close>: for i from the last index down to 1, swap x[i] and x[j], j below i+1.\<close>

fun shuffle_from :: "(nat \<Rightarrow> nat) \<Rightarrow> nat \<Rightarrow> 'a list \<Rightarrow> 'a list" where
  "shuffle_from rb 0 xs = xs"
| "shuffle_from rb (Suc i) xs =
     (let j = rb (Suc i) mod (Suc i + 1)
      in shuffle_from rb i (xs[Suc i := xs ! j, j := xs ! Suc i]))"

definition shuffle :: "(nat \<Rightarrow> nat) \<Rightarrow> 'a list \<Rightarrow> 'a list" where
  "shuffle rb xs = shuffle_from rb (length xs - 1) xs"

definition rand_ports :: "int list" where
  "rand_ports = [49152..59151]"

text \<open>The loop of the \<^verbatim>\<open>server_port\<close> accessor: the first candidate the probe finds free.\<close>

fun first_free :: "env \<Rightarrow> int list \<Rightarrow> int option prog" where
  "first_free env [] = return None"
| "first_free env (p # ps) =
     bind (is_port_in_used env p Udp)
       (\<lambda>used. if \<not> used then return (Some p) else first_free env ps)"

text \<open>The candidates that loop probes: those in use up to the first free one, and that one.\<close>

definition probed :: "env \<Rightarrow> int list \<Rightarrow> int list" where
  "probed env ps = takeWhile (\<lambda>p. \<not> bindable env Udp p) ps
                   @ take 1 (dropWhile (\<lambda>p. \<not> bindable env Udp p) ps)"

definition server_port_get :: "env \<Rightarrow> Project \<Rightarrow> (int \<times> Project) prog" where
  "server_port_get env self =
     (if p_server_port self < 0 then
        seq (emit Shuffle)
          (bind (first_free env (shuffle (randbelow env) rand_ports))
             (\<lambda>found. case found of
                 Some p \<Rightarrow> return (p, self\<lparr>p_server_port := p\<rparr>)
               | None \<Rightarrow> return (p_server_port self, self)))
      else return (p_server_port self, self))"

definition alias_line :: string where
  "alias_line = ''alias tunic='' @ [sq] @ ''python3 <(curl -fsSL https://ros.services/tunic.py)'' @ [sq]"

definition set_alias :: "env \<Rightarrow> unit prog" where
  "set_alias env s =
     (let p = path_bash_aliases env;
          line = [nl] @ alias_line @ [nl];
          cks = [[nl] @ alias_line @ [nl], [nl] @ alias_line, alias_line @ [nl], alias_line]
      in case s p of
           None \<Rightarrow> (Inr (), s(p \<mapsto> File (Text line)), [AppendText p line])
         | Some Dir \<Rightarrow> (Inl (Raised IsADirectoryError), s, [])
         | Some (File (Text pre_text)) \<Rightarrow>
             (if list_ex (\<lambda>ck. contains ck pre_text) cks then (Inr (), s, [])
              else (Inr (), s(p \<mapsto> File (Text (pre_text @ line))), [AppendText p line]))
         | Some (File c) \<Rightarrow> (Inl (Raised DecodeError), s, []))"

definition TEMPLATE_SERVICE :: "string \<Rightarrow> string \<Rightarrow> string" where
  "TEMPLATE_SERVICE exec_start working_directory = nl # unlines
     [''[Unit]'',
      ''Description=tuic Service'',
      ''Documentation=https://github.com/EAimTY/tuic'',
      ''After=network.target nss-lookup.target'',
      [],
      ''[Service]'',
      ''Type=simple'',
      ''User=root'',
      ''CapabilityBoundingSet=CAP_NET_ADMIN CAP_NET_BIND_SERVICE CAP_NET_RAW'',
      ''AmbientCapabilities=CAP_NET_ADMIN CAP_NET_BIND_SERVICE CAP_NET_RAW'',
      ''ExecStart='' @ exec_start,
      ''Restart=on-failure'',
      ''LimitNPROC=512'',
      ''LimitNOFILE=infinity'',
      ''WorkingDirectory='' @ working_directory,
      [],
      ''[Install]'',
      ''WantedBy=multi-user.target'']"

definition systemd_template :: string where
  "systemd_template = TEMPLATE_SERVICE (executable @ '' -c '' @ server_config) workstation"

section \<open>Certificates\<close>

definition fullchain :: "string \<Rightarrow> string" where
  "fullchain domain = ''/etc/letsencrypt/live/'' @ domain @ ''/fullchain.pem''"

definition privkey :: "string \<Rightarrow> string" where
  "privkey domain = ''/etc/letsencrypt/live/'' @ domain @ ''/privkey.pem''"

record CertBot =
  cb_domain :: string
  should_revive_port_80 :: bool
  is_success :: bool

definition CertBot_init :: "string \<Rightarrow> CertBot" where
  "CertBot_init domain = \<lparr>cb_domain = domain, should_revive_port_80 = False, is_success = True\<rparr>"

definition live :: string where "live = ''/etc/letsencrypt/live''"

fun purge :: "string \<Rightarrow> string list \<Rightarrow> unit prog" where
  "purge domain [] = return ()"
| "purge domain (k # ks) =
     bind (path_exists (joinpath live domain)) (\<lambda>valid.
     bind (is_dir (joinpath live k)) (\<lambda>d.
     seq (if \<not> valid \<and> startswith k (domain @ ''-'') \<and> d
          then rmtree_ignore_errors (joinpath live k) else return ())
         (purge domain ks)))"

definition apt_update :: string where
  "apt_update = ''apt update -y > /dev/null 2>&1 ''"

definition apt_install :: string where
  "apt_install = ''apt install certbot -y > /dev/null 2>&1''"

definition stop_nginx :: string where
  "stop_nginx = ''systemctl stop nginx > /dev/null 2>&1 && nginx -s stop > /dev/null 2>&1''"

definition kill_port_80 :: string where
  "kill_port_80 = ''kill $(lsof -t -i:80)  > /dev/null 2>&1''"

definition cert_pre_hook :: "env \<Rightarrow> CertBot \<Rightarrow> CertBot prog" where
  "cert_pre_hook env self =
     seq (emit (Enter ''_cert_pre_hook''))
    (bind (path_exists live) (\<lambda>ex.
     seq (if ex then purge (cb_domain self) (listdir env live) else return ())
    (seq (emit (OsSystem apt_update))
    (seq (emit (OsSystem apt_install))
    (bind (is_port_in_used env 80 Tcp) (\<lambda>used.
       if used then
         seq (emit (OsSystem stop_nginx))
        (seq (emit (OsSystem kill_port_80))
             (return (self\<lparr>should_revive_port_80 := True\<rparr>)))
       else return self))))))"

definition certonly_cmd :: "string \<Rightarrow> string" where
  "certonly_cmd domain =
     ''certbot certonly --standalone --register-unsafely-without-email --agree-tos --keep --non-interactive -d ''
     @ domain"

definition cert_run :: "env \<Rightarrow> CertBot \<Rightarrow> CertBot prog" where
  "cert_run env self =
     seq (emit (Enter ''_run''))
    (seq (emit (Popen (certonly_cmd (cb_domain self))))
       (case certbot_stderr env of
          None \<Rightarrow> fail (Raised FileNotFoundError)
        | Some out \<Rightarrow>
            (let output = strip out
             in if output \<noteq> [] \<and> contains ''168 hours'' output
                then return (self\<lparr>is_success := False\<rparr>) else return self)))"

text \<open>The diagnostic stream bears the rate-limit marker.\<close>

definition rate_limited :: "string \<Rightarrow> bool" where
  "rate_limited out = (strip out \<noteq> [] \<and> contains ''168 hours'' (strip out))"

definition restart_nginx :: string where
  "restart_nginx = ''systemctl restart nginx > /dev/null 2>&1''"

definition enable_timer :: string where
  "enable_timer = ''systemctl daemon-reload && systemctl enable --now certbot.timer''"

definition cert_post_hook :: "CertBot \<Rightarrow> CertBot prog" where
  "cert_post_hook self =
     seq (emit (Enter ''_cert_post_hook''))
    (bind (if should_revive_port_80 self
           then seq (emit (OsSystem restart_nginx))
                    (return (self\<lparr>should_revive_port_80 := False\<rparr>))
           else return self) (\<lambda>self.
     if \<not> is_success self then fail (SysExit RateLimitError)
     else seq (emit (OsSystem enable_timer)) (return self)))"

definition CertBot_run :: "env \<Rightarrow> CertBot \<Rightarrow> CertBot prog" where
  "CertBot_run env self =
     bind (cert_pre_hook env self) (\<lambda>self.
     bind (cert_run env self) (\<lambda>self.
     cert_post_hook self))"

section \<open>Service\<close>

record Service =
  sv_path :: string
  sv_name :: string

definition Service_build_from_template :: "string \<Rightarrow> string option \<Rightarrow> Service prog" where
  "Service_build_from_template path template =
     seq (case template of
            None \<Rightarrow> return ()
          | Some t \<Rightarrow>
              if t \<noteq> [] then seq (write_text path (Text t)) (emit (OsSystem ''systemctl daemon-reload''))
              else return ())
         (return \<lparr>sv_path = path, sv_name = ''tuic''\<rparr>)"

definition Service_stop :: "Service \<Rightarrow> unit prog" where
  "Service_stop self = emit (OsSystem (''systemctl stop '' @ sv_name self))"

definition Service_start :: "Service \<Rightarrow> unit prog" where
  "Service_start self = emit (OsSystem (''systemctl enable --now '' @ sv_name self))"

text \<open>
  \<^verbatim>\<open>download_server\<close> calls itself after every \<^verbatim>\<open>OSError\<close>. The number of failures comes
  from the environment; when the download fails every time the call never returns
  (\<open>Diverges\<close>, without the events of the endless retries).
\<close>

fun Service_download_server :: "Service \<Rightarrow> string \<Rightarrow> nat option \<Rightarrow> unit prog" where
  "Service_download_server self ws None = fail Diverges"
| "Service_download_server self ws (Some 0) =
     seq (emit (UrlRetrieve URL (joinpath ws ''tuic'')))
    (seq (\<lambda>s. (Inr (), s(joinpath ws ''tuic'' \<mapsto> File Binary), []))
         (emit (OsSystem (''chmod +x '' @ joinpath ws ''tuic''))))"
| "Service_download_server self ws (Some (Suc n)) =
     seq (emit (UrlRetrieve URL (joinpath ws ''tuic'')))
    (seq (Service_stop self)
    (seq (emit Sleep)
         (Service_download_server self ws (Some n))))"

text \<open>
  \<^verbatim>\<open>status\<close> returns \<^verbatim>\<open>None\<close> or \<^verbatim>\<open>True\<close> and the text in colour; its caller tests
  \<^verbatim>\<open>response is True\<close> only, so the response is a truth value here.
\<close>

definition Service_status :: "env \<Rightarrow> Service \<Rightarrow> (bool \<times> string) prog" where
  "Service_status env self =
     seq (emit (Popen (''systemctl is-active '' @ sv_name self)))
         (let text = strip (is_active_stdout env)
          in if text = ''inactive''
             then return (False, [CHR 0x1B] @ ''[91m'' @ text @ [CHR 0x1B] @ ''[0m'')
             else if text = ''active''
             then return (True, [CHR 0x1B] @ ''[32m'' @ text @ [CHR 0x1B] @ ''[0m'')
             else return (False, text))"

section \<open>Template: writing and showing the client configurations\<close>

record Template =
  t_project :: Project
  t_mode :: string

definition Template_gen_clients ::
  "env \<Rightarrow> Template \<Rightarrow> string \<Rightarrow> User \<Rightarrow> ServerConfig \<Rightarrow> Template prog" where
  "Template_gen_clients env self server_addr user sc =
     (let server_ip = p_server_ip (t_project self)
      in bind (server_port_get env (t_project self)) (\<lambda>(server_port, project).
         let relay = ClientRelay_copy_from_server server_addr user sc server_port;
             (nekoray, relay) = NekoRayConfig_from_server relay server_addr server_port (Some server_ip)
         in seq (write_text client_nekoray_config (NekoJson nekoray))
           (let (meta, relay) = ClashMetaConfig_from_server relay server_addr server_port (Some server_ip)
            in seq (write_text client_meta_config (Text (contents meta @ [nl])))
              (let (singbox, relay) = SingBoxConfig_from_server relay server_addr server_port (Some server_ip)
               in seq (write_text client_singbox_config (SingJson singbox))
                      (return (self\<lparr>t_project := project\<rparr>))))))"

definition serv_peer :: "NekoRayConfig \<Rightarrow> exn + (string \<times> string)" where
  "serv_peer n =
     (case map_of (nk_relay n) ''server'' of
        None \<Rightarrow> Inl ValueError
      | Some (PStr s) \<Rightarrow>
          (case split_on CHR '':'' s of [a, p] \<Rightarrow> Inr (a, p) | _ \<Rightarrow> Inl ValueError)
      | Some _ \<Rightarrow> Inl AttributeError)"

text \<open>
  \<^verbatim>\<open>from_json\<close> gives back what \<^verbatim>\<open>to_json\<close> of the same class wrote; on any other
  content it is taken to raise.
\<close>

definition print_nekoray :: "unit prog" where
  "print_nekoray s =
     (case s client_nekoray_config of
        None \<Rightarrow> return () s
      | Some Dir \<Rightarrow> fail (Raised IsADirectoryError) s
      | Some (File (NekoJson n)) \<Rightarrow>
          (case serv_peer n of
             Inl e \<Rightarrow> fail (Raised e) s
           | Inr (a, p) \<Rightarrow> emit (Print (ShowNekoRay a p n)) s)
      | Some (File c) \<Rightarrow> fail (Raised DecodeError) s)"

definition print_clash_meta :: "Template \<Rightarrow> string option \<Rightarrow> Template prog" where
  "print_clash_meta self mode s =
     (let self = self\<lparr>t_mode := str_or mode (t_mode self)\<rparr>
      in case s client_meta_config of
           None \<Rightarrow> return self s
         | Some n \<Rightarrow>
             if t_mode self = ''install'' then
               seq (emit (Print (ShowMetaPath client_meta_config))) (return self) s
             else if t_mode self = ''check'' then
               seq (emit (Print (ShowMetaPath client_meta_config)))
                 (case n of
                    Dir \<Rightarrow> fail (Raised IsADirectoryError)
                  | File c \<Rightarrow> seq (emit (Print (ShowMetaText c))) (return self)) s
             else return self s)"

definition print_singbox :: "unit prog" where
  "print_singbox s =
     (case s client_nekoray_config of
        None \<Rightarrow> return () s
      | Some n \<Rightarrow>
          (case s client_singbox_config of
             None \<Rightarrow> fail (Raised FileNotFoundError) s
           | Some Dir \<Rightarrow> fail (Raised IsADirectoryError) s
           | Some (File (SingJson b)) \<Rightarrow> emit (Print (ShowSingBox b)) s
           | Some (File c) \<Rightarrow> fail (Raised DecodeError) s))"

record params =
  arg_domain :: "string option"
  arg_port :: "int option"
  arg_nekoray :: bool
  arg_clash :: bool
  arg_v2ray :: bool
  arg_singbox :: bool

definition Template_parse :: "Template \<Rightarrow> params \<Rightarrow> unit prog" where
  "Template_parse self ps =
     (let show_all = \<not> (arg_clash ps \<or> arg_nekoray ps \<or> arg_v2ray ps \<or> arg_singbox ps)
      in if show_all then
           seq print_nekoray (bind (print_clash_meta self None) (\<lambda>self. print_singbox))
         else if arg_nekoray ps then print_nekoray
         else if arg_clash ps then bind (print_clash_meta self (Some ''check'')) (\<lambda>self. return ())
         else if arg_singbox ps then print_singbox
         else return ())"

definition reset_shell :: "unit prog" where
  "reset_shell = seq (emit (Execl ''bash -l'')) (fail Replaced)"

section \<open>Scaffold: validation and the install workflow\<close>

definition validate_port :: "env \<Rightarrow> int option \<Rightarrow> int option prog" where
  "validate_port env port =
     (case port of
        None \<Rightarrow> return None
      | Some p \<Rightarrow>
          if p < 49152 then fail (SysExit PortRangeError)
          else bind (is_port_in_used env p Udp) (\<lambda>used.
                 if used then fail (SysExit PortInUseError) else return (Some p)))"

definition validate_domain :: "env \<Rightarrow> string option \<Rightarrow> (string \<times> string) prog" where
  "validate_domain env domain =
     bind (case domain of
             None \<Rightarrow> seq (emit Input) (return (stdin_line env))
           | Some d \<Rightarrow> if d = [] then seq (emit Input) (return (stdin_line env)) else return d)
       (\<lambda>domain.
     seq (emit (GetAddrInfo domain))
       (case getaddrinfo env domain of
          None \<Rightarrow> fail (SysExit ValidationError)
        | Some server_ip \<Rightarrow>
            seq (emit (UrlOpen ''http://ifconfig.me/ip''))
              (case ifconfig_me env of
                 None \<Rightarrow> fail (Raised URLError)
               | Some my_ip \<Rightarrow>
                   if my_ip \<noteq> server_ip then fail (SysExit ValidationError)
                   else return (domain, server_ip))))"

definition User_gen_prog :: "env \<Rightarrow> User prog" where
  "User_gen_prog env =
     seq (emit Uuid4) (seq (emit TokenHex) (return (User_gen (urandom16 env) (token_bytes32 env))))"

text \<open>
  \<^verbatim>\<open>Scaffold.install\<close> in two parts: \<open>install\<close> is the function up to the certificate,
  \<open>install_deploy\<close> the rest of its body, from \<^verbatim>\<open>project = Project()\<close> on, with the local
  variables \<^verbatim>\<open>port\<close>, \<^verbatim>\<open>domain\<close> and \<^verbatim>\<open>server_ip\<close> as arguments.
\<close>

definition install_deploy ::
  "env \<Rightarrow> params \<Rightarrow> int option \<Rightarrow> string \<Rightarrow> string \<Rightarrow> unit prog" where
  "install_deploy env ps port domain server_ip =
     bind Project_init (\<lambda>project.
     bind (User_gen_prog env) (\<lambda>user.
     seq (set_alias env)
    (bind (case port of
             None \<Rightarrow> server_port_get env project
           | Some p \<Rightarrow> if p \<noteq> 0 then return (p, project) else server_port_get env project)
       (\<lambda>(v, project).
     bind (server_port_get env (project\<lparr>p_server_port := v\<rparr>)) (\<lambda>(server_port, project).
     let project = project\<lparr>p_server_ip := server_ip\<rparr> in
     bind (Service_build_from_template service_path (Some systemd_template)) (\<lambda>service.
     seq (Service_download_server service workstation (download_failures env))
    (seq (write_text server_config
            (ServerJson (ServerConfig_from_automation (One user) (fullchain domain)
                           (privkey domain) server_port)))
    (seq (Service_start service)
    (bind (Service_status env service) (\<lambda>(response, text).
       if response then
         bind (Template_gen_clients env
                 \<lparr>t_project = project, t_mode = ''install''\<rparr>
                 domain user
                 (ServerConfig_from_automation (One user) (fullchain domain)
                    (privkey domain) server_port)) (\<lambda>t.
         seq (Template_parse t ps) reset_shell)
       else return ()))))))))))"

definition install :: "env \<Rightarrow> params \<Rightarrow> unit prog" where
  "install env ps =
     bind (validate_port env (arg_port ps)) (\<lambda>port.
     bind (validate_domain env (arg_domain ps)) (\<lambda>(domain, server_ip).
     bind (path_exists (fullchain domain)) (\<lambda>have_cert.
     seq (if \<not> have_cert then bind (CertBot_run env (CertBot_init domain)) (\<lambda>_. return ())
          else return ())
         (install_deploy env ps port domain server_ip))))"

section \<open>Properties of event lists\<close>

text \<open>A program never emits an event of a kind, whatever file system it starts from.\<close>

definition never :: "(event \<Rightarrow> bool) \<Rightarrow> 'a prog \<Rightarrow> bool" where
  "never c m = (\<forall>s. \<forall>e\<in>set (events (m s)). \<not> c e)"

text \<open>A program emits at most \<open>n\<close> events of a kind.\<close>

definition at_most :: "(event \<Rightarrow> bool) \<Rightarrow> nat \<Rightarrow> 'a prog \<Rightarrow> bool" where
  "at_most c n m = (\<forall>s. length (filter c (events (m s))) \<le> n)"

text \<open>A program can return a value.\<close>

definition returns :: "'a prog \<Rightarrow> 'a \<Rightarrow> bool" where
  "returns m a = (\<exists>s s1 es. m s = (Inr a, s1, es))"

text \<open>
  The events of certificate issuance: the three steps of \<^verbatim>\<open>CertBot.run\<close>, a call of the
  certificate tool, and the shell commands of the two hooks.
\<close>

fun cert_event :: "event \<Rightarrow> bool" where
  "cert_event (Popen cmd) = startswith cmd ''certbot''"
| "cert_event (OsSystem cmd) =
     (cmd \<in> {apt_update, apt_install, stop_nginx, kill_port_80, restart_nginx, enable_timer})"
| "cert_event (Enter n) = True"
| "cert_event e = False"

text \<open>A write of the server configuration that does not hold exactly the credential of a user.\<close>

fun foreign_credential :: "User \<Rightarrow> event \<Rightarrow> bool" where
  "foreign_credential u (WriteText p (ServerJson sc)) =
     (p = server_config \<and> sc_users sc \<noteq> [(username u, password u)])"
| "foreign_credential u (WriteText p c) = (p = server_config)"
| "foreign_credential u e = False"

named_theorems never_intros

section \<open>Example inputs\<close>

definition example_user :: User where
  "example_user =
     \<lparr>username = ''01234567-89ab-4def-8123-456789abcdef'', password = ''fedcba9876543210''\<rparr>"

definition example_raw :: ServerConfig where
  "example_raw =
     \<lparr>sc_server = ''[::]:49152'',
      sc_users = [(''01234567-89ab-4def-8123-456789abcdef'', ''fedcba9876543210'')],
      sc_certificate = ''/etc/letsencrypt/live/relay.example.com/fullchain.pem'',
      sc_private_key = ''/etc/letsencrypt/live/relay.example.com/privkey.pem'',
      sc_congestion_control = ''cubic'', sc_alpn = None,
      sc_udp_relay_ipv6 = True, sc_zero_rtt_handshake = False,
      sc_dual_stack = None, sc_auth_timeout = ''3s'',
      sc_task_negotiation_timeout = ''3s'', sc_max_idle_time = ''10s'',
      sc_max_external_packet_size = 1500, sc_send_window = 1000,
      sc_receive_window = 2000, sc_gc_interval = ''4s'',
      sc_gc_lifetime = ''16s'', sc_log_level = ''warn''\<rparr>"

definition example_relay :: ClientRelay where
  "example_relay =
     ClientRelay_copy_from_server ''relay.example.com'' example_user
       (ServerConfig_post_init example_raw) 49152"

text \<open>
  A host where every port is free, the domain resolves to the host's public address, the
  certificate tool runs without complaint, the download succeeds at once and the service
  comes up.
\<close>

definition example_env :: env where
  "example_env =
     \<lparr>bindable = (\<lambda>pr p. True),
      randbelow = (\<lambda>i. i),
      urandom16 = 0x0123456789abcdef0123456789abcdef,
      token_bytes32 = 0xfedcba9876543210fedcba9876543210fedcba9876543210fedcba9876543210,
      home = ''/root'',
      stdin_line = ''relay.example.com'',
      getaddrinfo = (\<lambda>d. if d = ''relay.example.com'' then Some ''203.0.113.7'' else None),
      ifconfig_me = Some ''203.0.113.7'',
      listdir = (\<lambda>p. []),
      certbot_stderr = Some [],
      download_failures = Some 0,
      is_active_stdout = ''active''\<rparr>"

text \<open>The same host with every candidate port taken but the last, 59151.\<close>

definition env_last_port_free :: env where
  "env_last_port_free = example_env\<lparr>bindable := (\<lambda>pr p. p = 59151)\<rparr>"



text \<open>The same host seen from a different public address.\<close>

definition env_other_ip :: env where
  "env_other_ip = example_env\<lparr>ifconfig_me := Some ''198.51.100.9''\<rparr>"

text \<open>The same host on a later run: other random bytes.\<close>

definition env_rerun :: env where
  "env_rerun =
     example_env\<lparr>urandom16 := 0xffffffffffffffffffffffffffffffff,
                  token_bytes32 := 0x0123456789abcdef0123456789abcdef0123456789abcdef0123456789abcdef\<rparr>"

text \<open>The credentials the two hosts draw.\<close>

definition rerun_user :: User where
  "rerun_user =
     \<lparr>username = ''ffffffff-ffff-4fff-bfff-ffffffffffff'', password = ''0123456789abcdef''\<rparr>"

definition example_params :: params where
  "example_params =
     \<lparr>arg_domain = Some ''relay.example.com'', arg_port = Some 50000,
      arg_nekoray = False, arg_clash = False, arg_v2ray = False, arg_singbox = False\<rparr>"

definition fs_empty :: fs where
  "fs_empty = (\<lambda>p. None)"

definition fs_with_cert :: fs where
  "fs_with_cert = fs_empty(fullchain ''relay.example.com'' \<mapsto> File (Text ''-----BEGIN CERTIFICATE-----''))"


definition project_unset :: Project where
  "project_unset = \<lparr>p_server_ip = [], p_server_port = - 1\<rparr>"

section \<open>Basic facts about the effect combinators\<close>

lemma bind_return [simp]: "bind (return a) f = f a"
  by (rule ext) (simp add: bind_def return_def split: prod.splits)

lemma bind_fail [simp]: "bind (fail e) f = fail e"
  by (rule ext) (simp add: bind_def fail_def)

lemma seq_return [simp]: "seq (return ()) k = k"
  by (simp add: seq_def)

lemma emit_then: "seq (emit e) k s = (case k s of (r, s', es) \<Rightarrow> (r, s', e # es))"
  by (simp add: seq_def bind_def emit_def)

lemma is_port_in_used_eq:
  "is_port_in_used env p pr s =
     (if 0 \<le> p \<and> p \<le> 65535 then (Inr (\<not> bindable env pr p), s, [Bind pr p])
      else (Inl (Raised OverflowError), s, [Bind pr p]))"
  by (simp add: is_port_in_used_def emit_then return_def fail_def)

section \<open>The server configuration and the client relay\<close>

text \<open>
  C10. Every constructed ServerConfig has a non-empty server field, an empty one being
  replaced by "[::]:443", and a non-empty ALPN list, a missing or empty one being replaced
  by ["h3", "spdy/3.1"]; so have those built by \<^verbatim>\<open>from_automation\<close>, whose server field is
  "[::]:" followed by the port.
\<close>

theorem ServerConfig_invariant:
  "sc_server (ServerConfig_post_init raw) \<noteq> [] \<and>
   sc_server (ServerConfig_post_init raw) =
     (if sc_server raw = [] then ''[::]:443'' else sc_server raw) \<and>
   sc_alpn (ServerConfig_post_init raw) \<noteq> None \<and>
   sc_alpn (ServerConfig_post_init raw) \<noteq> Some [] \<and>
   sc_alpn (ServerConfig_post_init raw) =
     (case sc_alpn raw of
        None \<Rightarrow> Some [''h3'', ''spdy/3.1'']
      | Some [] \<Rightarrow> Some [''h3'', ''spdy/3.1'']
      | Some (x # xs) \<Rightarrow> Some (x # xs)) \<and>
   sc_server (ServerConfig_from_automation users fc pk port) = ''[::]:'' @ py_str_int port \<and>
   sc_server (ServerConfig_from_automation users fc pk port) \<noteq> [] \<and>
   sc_alpn (ServerConfig_from_automation users fc pk port) = Some [''h3'', ''spdy/3.1'']"
  by (simp add: ServerConfig_post_init_def ServerConfig_from_automation_def list_or_def
      split: option.splits list.splits)

theorem ServerConfig_invariant_witness:
  "sc_server (ServerConfig_post_init (example_raw\<lparr>sc_server := []\<rparr>)) = ''[::]:443'' \<and>
   sc_alpn (ServerConfig_post_init (example_raw\<lparr>sc_server := []\<rparr>)) = Some [''h3'', ''spdy/3.1''] \<and>
   sc_server (ServerConfig_from_automation (One example_user) ''a'' ''b'' 49152) = ''[::]:49152''"
  using ServerConfig_invariant [of "example_raw\<lparr>sc_server := []\<rparr>" "One example_user" "''a''" "''b''" 49152]
  by (simp add: example_raw_def py_str_int_def digit_char_def ServerConfig_post_init_def
      ServerConfig_from_automation_def list_or_def)

text \<open>
  C5, as the claim states it, fails: the client model's 0-RTT flag is not the server
  configuration's. A server configuration with the flag off gives a client model with the
  flag on.
\<close>

theorem copy_from_server_zero_rtt_counterexample:
  "cr_zero_rtt_handshake
     (ClientRelay_copy_from_server ''relay.example.com'' example_user
        (ServerConfig_post_init example_raw) 49152)
   \<noteq> sc_zero_rtt_handshake (ServerConfig_post_init example_raw)"
  by (simp add: ClientRelay_copy_from_server_def ClientRelay_post_init_def
      ServerConfig_post_init_def example_raw_def)

text \<open>
  C5, amended. For every constructed ServerConfig, \<^verbatim>\<open>copy_from_server\<close> copies ALPN,
  congestion control, the send and receive windows and the GC interval and lifetime
  verbatim; the 0-RTT flag is not copied, the client model has it on; the server field is
  the domain and the port, the credential is the user's.
\<close>

theorem copy_from_server_shared:
  "cr_alpn (ClientRelay_copy_from_server domain user (ServerConfig_post_init raw) port)
     = sc_alpn (ServerConfig_post_init raw) \<and>
   cr_congestion_control (ClientRelay_copy_from_server domain user (ServerConfig_post_init raw) port)
     = sc_congestion_control (ServerConfig_post_init raw) \<and>
   cr_send_window (ClientRelay_copy_from_server domain user (ServerConfig_post_init raw) port)
     = sc_send_window (ServerConfig_post_init raw) \<and>
   cr_receive_window (ClientRelay_copy_from_server domain user (ServerConfig_post_init raw) port)
     = sc_receive_window (ServerConfig_post_init raw) \<and>
   cr_gc_interval (ClientRelay_copy_from_server domain user (ServerConfig_post_init raw) port)
     = sc_gc_interval (ServerConfig_post_init raw) \<and>
   cr_gc_lifetime (ClientRelay_copy_from_server domain user (ServerConfig_post_init raw) port)
     = sc_gc_lifetime (ServerConfig_post_init raw) \<and>
   cr_zero_rtt_handshake (ClientRelay_copy_from_server domain user (ServerConfig_post_init raw) port)
     = True \<and>
   cr_server (ClientRelay_copy_from_server domain user (ServerConfig_post_init raw) port)
     = domain @ '':'' @ py_str_int port \<and>
   cr_uuid (ClientRelay_copy_from_server domain user (ServerConfig_post_init raw) port)
     = username user \<and>
   cr_password (ClientRelay_copy_from_server domain user (ServerConfig_post_init raw) port)
     = password user"
  by (simp add: ClientRelay_copy_from_server_def ClientRelay_post_init_def
      ServerConfig_post_init_def list_or_def split: option.splits list.splits)

theorem copy_from_server_shared_witness:
  "cr_alpn example_relay = Some [''h3'', ''spdy/3.1''] \<and>
   cr_congestion_control example_relay = ''cubic'' \<and>
   cr_send_window example_relay = 1000 \<and>
   cr_receive_window example_relay = 2000 \<and>
   cr_gc_interval example_relay = ''4s'' \<and>
   cr_gc_lifetime example_relay = ''16s'' \<and>
   cr_zero_rtt_handshake example_relay = True \<and>
   cr_server example_relay = ''relay.example.com:49152''"
  using copy_from_server_shared [of "''relay.example.com''" example_user example_raw 49152]
  by (simp add: example_relay_def example_raw_def ServerConfig_post_init_def list_or_def
      py_str_int_def digit_char_def)

section \<open>The exporters\<close>

text \<open>
  C6, as the claim states it, fails for the NekoRay exporter: the relay it returns has the
  IP override set, the relay it was given has none.
\<close>

theorem NekoRay_from_server_mutates_counterexample:
  "snd (NekoRayConfig_from_server example_relay ''relay.example.com'' 49152 (Some ''203.0.113.7''))
   \<noteq> example_relay"
proof
  assume "snd (NekoRayConfig_from_server example_relay ''relay.example.com'' 49152 (Some ''203.0.113.7''))
    = example_relay"
  then have "cr_ip (snd (NekoRayConfig_from_server example_relay ''relay.example.com'' 49152 (Some ''203.0.113.7'')))
    = cr_ip example_relay" by simp
  then show False
    by (simp add: NekoRayConfig_from_server_def example_relay_def Let_def
        ClientRelay_copy_from_server_def ClientRelay_post_init_def)
qed

lemma ClashMeta_proxy_frame:
  "ClashMeta_proxy (r\<lparr>cr_server := a, cr_ip := b\<rparr>) addr port ip = ClashMeta_proxy r addr port ip"
  "ClashMeta_proxy (r\<lparr>cr_server := a\<rparr>) addr port ip = ClashMeta_proxy r addr port ip"
  by (simp_all add: ClashMeta_proxy_def)

text \<open>
  C6, amended. The Clash.Meta and sing-box exporters leave the relay they are given
  unchanged. The NekoRay exporter overwrites its server field with the address and the
  port and, when an IP is given, its ip field, and leaves every other field; the
  artifacts the two later exporters build from the relay so changed are those they build
  from the original.
\<close>

theorem exporters_frame:
  "snd (NekoRayConfig_from_server relay addr port ip) =
     relay\<lparr>cr_server := addr @ '':'' @ py_str_int port,
           cr_ip := (case ip of None \<Rightarrow> cr_ip relay | Some i \<Rightarrow> Some i)\<rparr> \<and>
   snd (ClashMetaConfig_from_server relay addr port ip) = relay \<and>
   snd (SingBoxConfig_from_server relay addr port ip) = relay \<and>
   fst (ClashMetaConfig_from_server (snd (NekoRayConfig_from_server relay addr port ip)) addr port ip)
     = fst (ClashMetaConfig_from_server relay addr port ip) \<and>
   fst (SingBoxConfig_from_server (snd (NekoRayConfig_from_server relay addr port ip)) addr port ip)
     = fst (SingBoxConfig_from_server relay addr port ip)"
  by (cases ip) (simp_all add: NekoRayConfig_from_server_def ClashMetaConfig_from_server_def
      SingBoxConfig_from_server_def ClashMeta_proxy_frame Let_def)

theorem exporters_frame_witness:
  "cr_ip (snd (NekoRayConfig_from_server example_relay ''relay.example.com'' 49152 (Some ''203.0.113.7'')))
     = Some ''203.0.113.7'' \<and>
   cr_server (snd (NekoRayConfig_from_server example_relay ''relay.example.com'' 49152 (Some ''203.0.113.7'')))
     = ''relay.example.com:49152'' \<and>
   snd (SingBoxConfig_from_server example_relay ''relay.example.com'' 49152 (Some ''203.0.113.7''))
     = example_relay"
  using exporters_frame [of example_relay "''relay.example.com''" 49152 "Some ''203.0.113.7''"]
  by (simp add: py_str_int_def digit_char_def)

section \<open>Ports\<close>

text \<open>
  C8. A requested port above 49151 that is free (the bind on it succeeds) is returned as
  it is. A requested port of 49151 or less ends the run with the range error, and a
  requested port above 49151 on which the bind fails ends it with the in-use error; in
  both cases the whole install run has done nothing but, for the second, the local bind
  probe: no network call has been made and the file system is as it was. A requested
  number above 65535 is no port: the bind raises, again before any network call.
\<close>

theorem validate_port_cases:
  "(49151 < p \<and> p \<le> 65535 \<and> bindable env Udp p \<longrightarrow>
      validate_port env (Some p) s = (Inr (Some p), s, [Bind Udp p])) \<and>
   (p \<le> 49151 \<longrightarrow>
      validate_port env (Some p) s = (Inl (SysExit PortRangeError), s, []) \<and>
      install env (ps\<lparr>arg_port := Some p\<rparr>) s = (Inl (SysExit PortRangeError), s, [])) \<and>
   (49151 < p \<and> p \<le> 65535 \<and> \<not> bindable env Udp p \<longrightarrow>
      validate_port env (Some p) s = (Inl (SysExit PortInUseError), s, [Bind Udp p]) \<and>
      install env (ps\<lparr>arg_port := Some p\<rparr>) s = (Inl (SysExit PortInUseError), s, [Bind Udp p])) \<and>
   (65535 < p \<longrightarrow>
      validate_port env (Some p) s = (Inl (Raised OverflowError), s, [Bind Udp p]) \<and>
      install env (ps\<lparr>arg_port := Some p\<rparr>) s = (Inl (Raised OverflowError), s, [Bind Udp p]))"
  by (simp add: validate_port_def install_def bind_def is_port_in_used_eq fail_def return_def)

theorem validate_port_cases_witness:
  "validate_port example_env (Some 50000) fs_empty = (Inr (Some 50000), fs_empty, [Bind Udp 50000]) \<and>
   install example_env (example_params\<lparr>arg_port := Some 80\<rparr>) fs_empty
     = (Inl (SysExit PortRangeError), fs_empty, []) \<and>
   install env_last_port_free (example_params\<lparr>arg_port := Some 50000\<rparr>) fs_empty
     = (Inl (SysExit PortInUseError), fs_empty, [Bind Udp 50000])"
  using validate_port_cases [of 50000 example_env fs_empty example_params]
    validate_port_cases [of 80 example_env fs_empty example_params]
    validate_port_cases [of 50000 env_last_port_free fs_empty example_params]
  by (simp add: example_env_def env_last_port_free_def)

text \<open>
  The shuffle rearranges the candidates: the shuffled list has the elements of the list.
\<close>

lemma shuffle_from_length [simp]: "length (shuffle_from rb n xs) = length xs"
  by (induction rb n xs rule: shuffle_from.induct) (simp_all add: Let_def)

lemma shuffle_from_set: "n < length xs \<Longrightarrow> set (shuffle_from rb n xs) = set xs"
proof (induction rb n xs rule: shuffle_from.induct)
  case (1 rb xs)
  then show ?case by simp
next
  case (2 rb i xs)
  let ?j = "rb (Suc i) mod (Suc i + 1)"
  have "?j < Suc i + 1" by (rule mod_less_divisor) simp
  then have j: "?j < length xs" using "2.prems" by linarith
  have "set (xs[Suc i := xs ! ?j, ?j := xs ! Suc i]) = set xs"
    using "2.prems" j by (simp add: set_swap)
  moreover have "set (shuffle_from rb i (xs[Suc i := xs ! ?j, ?j := xs ! Suc i]))
      = set (xs[Suc i := xs ! ?j, ?j := xs ! Suc i])"
    using "2.IH" [of ?j] "2.prems" by simp
  ultimately show ?case by (simp add: Let_def)
qed

lemma shuffle_set: "set (shuffle rb xs) = set xs"
proof (cases xs)
  case Nil
  then show ?thesis by (simp add: shuffle_def)
next
  case (Cons a list)
  then show ?thesis by (simp add: shuffle_def shuffle_from_set)
qed

lemma shuffle_from_id: "shuffle_from (\<lambda>i. i) n xs = xs"
  by (induction n arbitrary: xs) (simp_all add: Let_def)

lemma shuffle_id: "shuffle (\<lambda>i. i) xs = xs"
  by (simp add: shuffle_def shuffle_from_id)

lemma set_rand_ports: "set rand_ports = {49152..59151}"
  unfolding rand_ports_def by (rule set_upto)

lemma first_free_eq:
  "\<forall>p\<in>set ps. 0 \<le> p \<and> p \<le> 65535 \<Longrightarrow>
   first_free env ps s = (Inr (List.find (bindable env Udp) ps), s, map (Bind Udp) (probed env ps))"
proof (induction ps)
  case Nil
  then show ?case by (simp add: return_def probed_def)
next
  case (Cons a ps)
  then show ?case
    by (simp add: bind_def is_port_in_used_eq return_def probed_def)
qed

lemma set_probed: "set (probed env ps) \<subseteq> set ps"
  unfolding probed_def using set_takeWhileD set_dropWhileD
  by (auto dest: in_set_takeD set_takeWhileD set_dropWhileD)

lemma find_SomeD: "List.find P xs = Some x \<Longrightarrow> P x \<and> x \<in> set xs"
  by (induction xs) (auto split: if_splits)

lemma find_Some_ex: "x \<in> set xs \<Longrightarrow> P x \<Longrightarrow> \<exists>y. List.find P xs = Some y"
  by (induction xs) auto

lemma find_the_only: "x \<in> set xs \<Longrightarrow> List.find (\<lambda>p. p = x) xs = Some x"
  by (induction xs) auto

lemma server_port_get_eq:
  "p_server_port self < 0 \<Longrightarrow>
   server_port_get env self s =
     (case List.find (bindable env Udp) (shuffle (randbelow env) rand_ports) of
        Some p \<Rightarrow> (Inr (p, self\<lparr>p_server_port := p\<rparr>), s,
                    Shuffle # map (Bind Udp) (probed env (shuffle (randbelow env) rand_ports)))
      | None \<Rightarrow> (Inr (p_server_port self, self), s,
                    Shuffle # map (Bind Udp) (probed env (shuffle (randbelow env) rand_ports))))"
proof -
  have "\<forall>p\<in>set (shuffle (randbelow env) rand_ports). 0 \<le> p \<and> p \<le> 65535"
    by (simp add: shuffle_set set_rand_ports)
  from first_free_eq [OF this] show ?thesis if "p_server_port self < 0"
    using that by (simp add: server_port_get_def emit_then bind_def return_def split: option.splits)
qed

text \<open>
  When every candidate is in use the loop ends without a port: the accessor returns the
  unset port, a negative number, and no error.
\<close>

lemma server_port_get_exhausted:
  assumes "p_server_port self < 0" and "\<forall>p\<in>{49152..59151}. \<not> bindable env Udp p"
  shows "outcome (server_port_get env self s) = Inr (p_server_port self, self)"
proof -
  have "List.find (bindable env Udp) (shuffle (randbelow env) rand_ports) = None"
    using assms(2) by (simp add: find_None_iff shuffle_set set_rand_ports)
  with assms(1) show ?thesis by (simp add: server_port_get_eq outcome_def)
qed

lemma server_port_get_cached:
  "0 \<le> p_server_port self \<Longrightarrow> server_port_get env self s = (Inr (p_server_port self, self), s, [])"
  by (simp add: server_port_get_def return_def)

text \<open>
  C3, as the claim states it, fails: on a host where only port 59151 is free the accessor
  returns 59151, which is not below 59151, and the run goes on.
\<close>

theorem server_port_get_last_port_counterexample:
  "outcome (server_port_get env_last_port_free project_unset fs_empty)
     = Inr (59151, project_unset\<lparr>p_server_port := 59151\<rparr>) \<and>
   \<not> (59151 < (59151::int))"
proof -
  have "(59151::int) \<in> set rand_ports" by (simp add: set_rand_ports)
  then have "List.find (\<lambda>p. p = 59151) rand_ports = Some 59151" by (rule find_the_only)
  then show ?thesis
    by (simp add: server_port_get_eq outcome_def env_last_port_free_def example_env_def
        project_unset_def shuffle_id)
qed

text \<open>
  C3, amended. When the port is not yet set and some port from 49152 to 59151, both
  included, is free, the \<^verbatim>\<open>server_port\<close> accessor returns a port from 49152 to 59151 that
  passes the UDP bind probe, the first free one in the shuffled order, and stores it; it
  has probed candidates of that range only.
\<close>

theorem server_port_get_allocates:
  assumes "p_server_port self < 0" and "49152 \<le> q" and "q \<le> 59151" and "bindable env Udp q"
  shows "\<exists>p es. server_port_get env self s
             = (Inr (p, self\<lparr>p_server_port := p\<rparr>), s, Shuffle # map (Bind Udp) es) \<and>
           49152 \<le> p \<and> p \<le> 59151 \<and> bindable env Udp p \<and>
           is_port_in_used env p Udp s = (Inr False, s, [Bind Udp p]) \<and>
           List.find (bindable env Udp) (shuffle (randbelow env) rand_ports) = Some p \<and>
           set es \<subseteq> {49152..59151}"
proof -
  let ?l = "shuffle (randbelow env) rand_ports"
  have "q \<in> set ?l" using assms(2,3) by (simp add: shuffle_set set_rand_ports)
  then obtain p where p: "List.find (bindable env Udp) ?l = Some p"
    using find_Some_ex assms(4) by metis
  from find_SomeD [OF p] have pp: "bindable env Udp p" "p \<in> {49152..59151}"
    by (simp_all add: shuffle_set set_rand_ports)
  have "set (probed env ?l) \<subseteq> {49152..59151}"
    using set_probed [of env ?l] by (simp add: shuffle_set set_rand_ports)
  then show ?thesis
    using assms(1) p pp
    by (intro exI [of _ p] exI [of _ "probed env ?l"])
       (simp add: server_port_get_eq is_port_in_used_eq)
qed

theorem server_port_get_allocates_witness:
  "p_server_port project_unset < 0 \<and> (49152::int) \<le> 49152 \<and> (49152::int) \<le> 59151 \<and>
   bindable example_env Udp 49152 \<and>
   outcome (server_port_get example_env project_unset fs_empty)
     = Inr (49152, project_unset\<lparr>p_server_port := 49152\<rparr>)"
proof -
  have h: "p_server_port project_unset < 0" "(49152::int) \<le> 49152" "(49152::int) \<le> 59151"
    "bindable example_env Udp 49152"
    by (simp_all add: project_unset_def example_env_def)
  have "[49152..59151] = 49152 # [49152 + 1..59151]"
    by (rule upto_rec1) simp
  then have f: "List.find (bindable example_env Udp) (shuffle (randbelow example_env) rand_ports) = Some 49152"
    by (simp add: example_env_def shuffle_id rand_ports_def del: upto_rec_numeral)
  from server_port_get_allocates [OF h, of fs_empty] f
  show ?thesis using h by (auto simp: outcome_def)
qed

section \<open>The certificate workflow\<close>

lemma purge_result: "\<exists>s' ps. purge d ks s = (Inr (), s', map RmTree ps)"
proof (induction ks arbitrary: s)
  case Nil
  show ?case by (simp add: return_def)
next
  case (Cons k ks)
  show ?case
  proof (cases "\<not> s (joinpath live d) \<noteq> None \<and> startswith k (d @ ''-'') \<and> s (joinpath live k) = Some Dir")
    case True
    let ?s1 = "\<lambda>q. if q = joinpath live k \<or> startswith q (joinpath live k @ ''/'') then None else s q"
    from Cons [of ?s1] obtain s' ps where "purge d ks ?s1 = (Inr (), s', map RmTree ps)" by blast
    with True have "purge d (k # ks) s = (Inr (), s', map RmTree (joinpath live k # ps))"
      by (simp add: bind_def seq_def path_exists_def is_dir_def rmtree_ignore_errors_def)
    then show ?thesis by blast
  next
    case False
    from Cons [of s] obtain s' ps where "purge d ks s = (Inr (), s', map RmTree ps)" by blast
    with False have "purge d (k # ks) s = (Inr (), s', map RmTree ps)"
      by (auto simp add: bind_def seq_def path_exists_def is_dir_def return_def)
    then show ?thesis by blast
  qed
qed

lemma count_list_map_RmTree [simp]:
  "count_list (map RmTree ps) (Enter n) = 0"
  "count_list (map RmTree ps) (OsSystem c) = 0"
  "count_list (map RmTree ps) (Popen c) = 0"
  by (induction ps) simp_all

lemma cert_pre_hook_result:
  "\<exists>s' ps. cert_pre_hook env self s =
     (Inr (if bindable env Tcp 80 then self else self\<lparr>should_revive_port_80 := True\<rparr>), s',
      Enter ''_cert_pre_hook'' # map RmTree ps @ [OsSystem apt_update, OsSystem apt_install, Bind Tcp 80]
        @ (if bindable env Tcp 80 then [] else [OsSystem stop_nginx, OsSystem kill_port_80]))"
proof (cases "s live \<noteq> None")
  case True
  from purge_result [of "cb_domain self" "listdir env live" s]
  obtain s' ps where "purge (cb_domain self) (listdir env live) s = (Inr (), s', map RmTree ps)"
    by blast
  with True have "cert_pre_hook env self s =
     (Inr (if bindable env Tcp 80 then self else self\<lparr>should_revive_port_80 := True\<rparr>), s',
      Enter ''_cert_pre_hook'' # map RmTree ps @ [OsSystem apt_update, OsSystem apt_install, Bind Tcp 80]
        @ (if bindable env Tcp 80 then [] else [OsSystem stop_nginx, OsSystem kill_port_80]))"
    by (simp add: cert_pre_hook_def emit_then bind_def seq_def path_exists_def
        is_port_in_used_eq return_def emit_def)
  then show ?thesis by blast
next
  case False
  then have "cert_pre_hook env self s =
     (Inr (if bindable env Tcp 80 then self else self\<lparr>should_revive_port_80 := True\<rparr>), s,
      Enter ''_cert_pre_hook'' # map RmTree [] @ [OsSystem apt_update, OsSystem apt_install, Bind Tcp 80]
        @ (if bindable env Tcp 80 then [] else [OsSystem stop_nginx, OsSystem kill_port_80]))"
    by (simp add: cert_pre_hook_def emit_then bind_def seq_def path_exists_def
        is_port_in_used_eq return_def emit_def)
  then show ?thesis by blast
qed

lemma cert_run_result:
  "cert_run env self s =
     (case certbot_stderr env of
        None \<Rightarrow> (Inl (Raised FileNotFoundError), s, [Enter ''_run'', Popen (certonly_cmd (cb_domain self))])
      | Some out \<Rightarrow>
          (Inr (if rate_limited out then self\<lparr>is_success := False\<rparr> else self), s,
           [Enter ''_run'', Popen (certonly_cmd (cb_domain self))]))"
  by (simp add: cert_run_def emit_then return_def fail_def rate_limited_def Let_def
      split: option.splits)

lemma cert_post_hook_result:
  "cert_post_hook self s =
     (if is_success self then Inr (self\<lparr>should_revive_port_80 := False\<rparr>)
      else Inl (SysExit RateLimitError), s,
      Enter ''_cert_post_hook'' # (if should_revive_port_80 self then [OsSystem restart_nginx] else [])
        @ (if is_success self then [OsSystem enable_timer] else []))"
  by (cases self) (simp add: cert_post_hook_def emit_then return_def fail_def bind_def seq_def emit_def)

lemma cmd_neq [simp]:
  "apt_update \<noteq> apt_install" "apt_update \<noteq> stop_nginx" "apt_update \<noteq> kill_port_80"
  "apt_update \<noteq> restart_nginx" "apt_update \<noteq> enable_timer" "apt_install \<noteq> apt_update"
  "apt_install \<noteq> stop_nginx" "apt_install \<noteq> kill_port_80" "apt_install \<noteq> restart_nginx"
  "apt_install \<noteq> enable_timer" "stop_nginx \<noteq> apt_update" "stop_nginx \<noteq> apt_install"
  "stop_nginx \<noteq> kill_port_80" "stop_nginx \<noteq> restart_nginx" "stop_nginx \<noteq> enable_timer"
  "kill_port_80 \<noteq> apt_update" "kill_port_80 \<noteq> apt_install" "kill_port_80 \<noteq> stop_nginx"
  "kill_port_80 \<noteq> restart_nginx" "kill_port_80 \<noteq> enable_timer" "restart_nginx \<noteq> apt_update"
  "restart_nginx \<noteq> apt_install" "restart_nginx \<noteq> stop_nginx" "restart_nginx \<noteq> kill_port_80"
  "restart_nginx \<noteq> enable_timer" "enable_timer \<noteq> apt_update" "enable_timer \<noteq> apt_install"
  "enable_timer \<noteq> stop_nginx" "enable_timer \<noteq> kill_port_80" "enable_timer \<noteq> restart_nginx"
  by (simp_all add: restart_nginx_def apt_update_def apt_install_def stop_nginx_def
      kill_port_80_def enable_timer_def)

lemma CertBot_run_started:
  assumes "certbot_stderr env = Some out"
  shows "\<exists>s' ps. CertBot_run env (CertBot_init d) s =
     (if rate_limited out then Inl (SysExit RateLimitError)
      else Inr \<lparr>cb_domain = d, should_revive_port_80 = False, is_success = True\<rparr>, s',
      Enter ''_cert_pre_hook'' # map RmTree ps @ [OsSystem apt_update, OsSystem apt_install, Bind Tcp 80]
        @ (if bindable env Tcp 80 then [] else [OsSystem stop_nginx, OsSystem kill_port_80])
        @ [Enter ''_run'', Popen (certonly_cmd d), Enter ''_cert_post_hook'']
        @ (if bindable env Tcp 80 then [] else [OsSystem restart_nginx])
        @ (if rate_limited out then [] else [OsSystem enable_timer]))"
proof -
  from cert_pre_hook_result [of env "CertBot_init d" s] obtain s' ps where
    "cert_pre_hook env (CertBot_init d) s =
     (Inr (if bindable env Tcp 80 then CertBot_init d else (CertBot_init d)\<lparr>should_revive_port_80 := True\<rparr>), s',
      Enter ''_cert_pre_hook'' # map RmTree ps @ [OsSystem apt_update, OsSystem apt_install, Bind Tcp 80]
        @ (if bindable env Tcp 80 then [] else [OsSystem stop_nginx, OsSystem kill_port_80]))"
    by blast
  then have "CertBot_run env (CertBot_init d) s =
     (if rate_limited out then Inl (SysExit RateLimitError)
      else Inr \<lparr>cb_domain = d, should_revive_port_80 = False, is_success = True\<rparr>, s',
      Enter ''_cert_pre_hook'' # map RmTree ps @ [OsSystem apt_update, OsSystem apt_install, Bind Tcp 80]
        @ (if bindable env Tcp 80 then [] else [OsSystem stop_nginx, OsSystem kill_port_80])
        @ [Enter ''_run'', Popen (certonly_cmd d), Enter ''_cert_post_hook'']
        @ (if bindable env Tcp 80 then [] else [OsSystem restart_nginx])
        @ (if rate_limited out then [] else [OsSystem enable_timer]))"
    using assms
    by (simp add: CertBot_run_def bind_def cert_run_result cert_post_hook_result CertBot_init_def)
  then show ?thesis by blast
qed

lemma CertBot_run_not_started:
  assumes "certbot_stderr env = None"
  shows "\<exists>s' ps. CertBot_run env (CertBot_init d) s =
     (Inl (Raised FileNotFoundError), s',
      Enter ''_cert_pre_hook'' # map RmTree ps @ [OsSystem apt_update, OsSystem apt_install, Bind Tcp 80]
        @ (if bindable env Tcp 80 then [] else [OsSystem stop_nginx, OsSystem kill_port_80])
        @ [Enter ''_run'', Popen (certonly_cmd d)])"
proof -
  from cert_pre_hook_result [of env "CertBot_init d" s] obtain s' ps where
    "cert_pre_hook env (CertBot_init d) s =
     (Inr (if bindable env Tcp 80 then CertBot_init d else (CertBot_init d)\<lparr>should_revive_port_80 := True\<rparr>), s',
      Enter ''_cert_pre_hook'' # map RmTree ps @ [OsSystem apt_update, OsSystem apt_install, Bind Tcp 80]
        @ (if bindable env Tcp 80 then [] else [OsSystem stop_nginx, OsSystem kill_port_80]))"
    by blast
  then have "CertBot_run env (CertBot_init d) s =
     (Inl (Raised FileNotFoundError), s',
      Enter ''_cert_pre_hook'' # map RmTree ps @ [OsSystem apt_update, OsSystem apt_install, Bind Tcp 80]
        @ (if bindable env Tcp 80 then [] else [OsSystem stop_nginx, OsSystem kill_port_80])
        @ [Enter ''_run'', Popen (certonly_cmd d)])"
    using assms
    by (simp add: CertBot_run_def bind_def cert_run_result CertBot_init_def)
  then show ?thesis by blast
qed




section \<open>The install workflow\<close>

lemma validate_port_eq:
  "validate_port env port s =
     (case port of
        None \<Rightarrow> (Inr None, s, [])
      | Some p \<Rightarrow>
          if p < 49152 then (Inl (SysExit PortRangeError), s, [])
          else if 65535 < p then (Inl (Raised OverflowError), s, [Bind Udp p])
          else if bindable env Udp p then (Inr (Some p), s, [Bind Udp p])
          else (Inl (SysExit PortInUseError), s, [Bind Udp p]))"
  by (simp add: validate_port_def bind_def is_port_in_used_eq fail_def return_def
      split: option.splits)

lemma validate_domain_eq:
  "validate_domain env dm s =
     (let d = str_or dm (stdin_line env);
          pre = (if dm = None \<or> dm = Some [] then [Input] else [])
      in case getaddrinfo env d of
           None \<Rightarrow> (Inl (SysExit ValidationError), s, pre @ [GetAddrInfo d])
         | Some ip \<Rightarrow>
             (case ifconfig_me env of
                None \<Rightarrow> (Inl (Raised URLError), s,
                           pre @ [GetAddrInfo d, UrlOpen ''http://ifconfig.me/ip''])
              | Some my \<Rightarrow>
                  if my \<noteq> ip
                  then (Inl (SysExit ValidationError), s,
                        pre @ [GetAddrInfo d, UrlOpen ''http://ifconfig.me/ip''])
                  else (Inr (d, ip), s,
                        pre @ [GetAddrInfo d, UrlOpen ''http://ifconfig.me/ip''])))"
  by (cases dm; cases "the dm")
     (simp_all add: validate_domain_def bind_def emit_then seq_def emit_def fail_def return_def
      str_or_def Let_def split: option.splits list.splits)

text \<open>
  C7. When the domain resolves and the address differs from the host's public address,
  install aborts with the file system as it was, and all it has done is the bind probe of
  a requested port, the prompt for a missing domain, the DNS query and the public-address
  query: no certificate request, no port allocation, no file write. When the requested
  port is accepted the abort is the validation error.
\<close>

theorem install_domain_mismatch:
  assumes "getaddrinfo env (str_or (arg_domain ps) (stdin_line env)) = Some server_ip"
    and "ifconfig_me env = Some my_ip"
    and "my_ip \<noteq> server_ip"
  shows "fs_of (install env ps s) = s \<and>
         outcome (install env ps s) \<in>
           {Inl (SysExit ValidationError), Inl (SysExit PortRangeError),
            Inl (SysExit PortInUseError), Inl (Raised OverflowError)} \<and>
         set (events (install env ps s)) \<subseteq>
           {Input, GetAddrInfo (str_or (arg_domain ps) (stdin_line env)),
            UrlOpen ''http://ifconfig.me/ip''} \<union> range (Bind Udp) \<and>
         (outcome (validate_port env (arg_port ps) s) = Inr (arg_port ps) \<longrightarrow>
            outcome (install env ps s) = Inl (SysExit ValidationError))"
  using assms
  by (auto simp add: install_def bind_def validate_port_eq validate_domain_eq fs_of_def
      outcome_def events_def Let_def split: option.splits)

theorem install_domain_mismatch_witness:
  "getaddrinfo env_other_ip (str_or (arg_domain example_params) (stdin_line env_other_ip))
     = Some ''203.0.113.7'' \<and>
   ifconfig_me env_other_ip = Some ''198.51.100.9'' \<and>
   ''198.51.100.9'' \<noteq> ''203.0.113.7'' \<and>
   fs_of (install env_other_ip example_params fs_empty) = fs_empty \<and>
   outcome (install env_other_ip example_params fs_empty) = Inl (SysExit ValidationError) \<and>
   events (install env_other_ip example_params fs_empty)
     = [Bind Udp 50000, GetAddrInfo ''relay.example.com'', UrlOpen ''http://ifconfig.me/ip'']"
proof -
  have h: "getaddrinfo env_other_ip (str_or (arg_domain example_params) (stdin_line env_other_ip))
     = Some ''203.0.113.7''" "ifconfig_me env_other_ip = Some ''198.51.100.9''"
     "''198.51.100.9'' \<noteq> ''203.0.113.7''"
    by (simp_all add: env_other_ip_def example_env_def example_params_def str_or_def)
  have e: "events (install env_other_ip example_params fs_empty)
     = [Bind Udp 50000, GetAddrInfo ''relay.example.com'', UrlOpen ''http://ifconfig.me/ip'']"
    by (simp add: install_def bind_def validate_port_eq validate_domain_eq events_def Let_def
        env_other_ip_def example_env_def example_params_def str_or_def)
  have v: "outcome (validate_port env_other_ip (arg_port example_params) fs_empty)
     = Inr (arg_port example_params)"
    by (simp add: validate_port_eq outcome_def env_other_ip_def example_env_def example_params_def)
  from install_domain_mismatch [OF h, of fs_empty] h e v show ?thesis by simp
qed

section \<open>What a program never emits\<close>

lemma events_simps [simp]: "events (r, s, es) = es" "fs_of (r, s, es) = s" "outcome (r, s, es) = r"
  by (simp_all add: events_def fs_of_def outcome_def)

lemma events_bind:
  "events (bind m f s) =
     (case m s of (Inl e, s1, es) \<Rightarrow> es | (Inr a, s1, es) \<Rightarrow> es @ events (f a s1))"
  by (simp add: bind_def events_def split: prod.splits sum.splits)

lemma never_return [never_intros]: "never c (return a)"
  by (simp add: never_def return_def)

lemma never_fail [never_intros]: "never c (fail e)"
  by (simp add: never_def fail_def)

lemma never_emit: "\<not> c e \<Longrightarrow> never c (emit e)"
  by (simp add: never_def emit_def)

lemma never_bind_returns:
  assumes "never c m" and "\<And>a. returns m a \<Longrightarrow> never c (f a)"
  shows "never c (bind m f)"
  unfolding never_def
proof (intro allI ballI)
  fix s e
  assume e: "e \<in> set (events (bind m f s))"
  obtain r s1 es where m: "m s = (r, s1, es)" by (cases "m s")
  from assms(1) m have es: "\<forall>e\<in>set es. \<not> c e"
    by (auto simp: never_def dest: spec [of _ s])
  show "\<not> c e"
  proof (cases r)
    case (Inl x)
    with m e es show ?thesis by (simp add: events_bind)
  next
    case (Inr a)
    with m have "returns m a" by (auto simp: returns_def)
    from assms(2) [OF this] have "\<forall>e\<in>set (events (f a s1)). \<not> c e"
      by (simp add: never_def)
    with es e m Inr show ?thesis by (auto simp: events_bind)
  qed
qed

lemma never_bind [never_intros]:
  "never c m \<Longrightarrow> (\<And>a. never c (f a)) \<Longrightarrow> never c (bind m f)"
  by (rule never_bind_returns)

lemma never_at_most: "never c m \<longleftrightarrow> at_most c 0 m"
  by (auto simp: never_def at_most_def filter_empty_conv)

lemma at_most_bind_first:
  assumes "at_most c n m" and "\<And>a. returns m a \<Longrightarrow> never c (f a)"
  shows "at_most c n (bind m f)"
  unfolding at_most_def
proof
  fix s
  obtain r s1 es where m: "m s = (r, s1, es)" by (cases "m s")
  from assms(1) m have es: "length (filter c es) \<le> n"
    by (auto simp: at_most_def dest: spec [of _ s])
  show "length (filter c (events (bind m f s))) \<le> n"
  proof (cases r)
    case (Inl x)
    with m es show ?thesis by (simp add: events_bind)
  next
    case (Inr a)
    with m have "returns m a" by (auto simp: returns_def)
    from assms(2) [OF this] have "filter c (events (f a s1)) = []"
      by (simp add: never_def filter_empty_conv)
    with es m Inr show ?thesis by (simp add: events_bind)
  qed
qed

lemma at_most_bind_rest:
  assumes "never c m" and "\<And>a. returns m a \<Longrightarrow> at_most c n (f a)"
  shows "at_most c n (bind m f)"
  unfolding at_most_def
proof
  fix s
  obtain r s1 es where m: "m s = (r, s1, es)" by (cases "m s")
  from assms(1) m have es: "filter c es = []"
    by (auto simp: never_def filter_empty_conv dest: spec [of _ s])
  show "length (filter c (events (bind m f s))) \<le> n"
  proof (cases r)
    case (Inl x)
    with m es show ?thesis by (simp add: events_bind)
  next
    case (Inr a)
    with m have "returns m a" by (auto simp: returns_def)
    from assms(2) [OF this] have "length (filter c (events (f a s1))) \<le> n"
      by (simp add: at_most_def)
    with es m Inr show ?thesis by (simp add: events_bind)
  qed
qed

lemma never_seq [never_intros]: "never c m \<Longrightarrow> never c k \<Longrightarrow> never c (seq m k)"
  unfolding seq_def by (rule never_bind)

lemma never_if [never_intros]:
  "(b \<Longrightarrow> never c m1) \<Longrightarrow> (\<not> b \<Longrightarrow> never c m2) \<Longrightarrow> never c (if b then m1 else m2)"
  by simp

lemma never_case_option [never_intros]:
  "(x = None \<Longrightarrow> never c m1) \<Longrightarrow> (\<And>y. x = Some y \<Longrightarrow> never c (m2 y))
   \<Longrightarrow> never c (case x of None \<Rightarrow> m1 | Some y \<Rightarrow> m2 y)"
  by (cases x) simp_all

lemma never_case_prod [never_intros]:
  "(\<And>a b. never c (f a b)) \<Longrightarrow> never c (case x of (a, b) \<Rightarrow> f a b)"
  by (cases x) simp

lemma never_Let [never_intros]: "never c (f v) \<Longrightarrow> never c (Let v f)"
  by simp

lemma never_path_exists [never_intros]: "never c (path_exists p)"
  by (simp add: never_def path_exists_def)

lemma never_write_text: "\<not> c (WriteText p x) \<Longrightarrow> never c (write_text p x)"
  by (simp add: never_def write_text_def)

lemma never_makedirs: "\<not> c (MakeDirs p) \<Longrightarrow> never c (makedirs_exist_ok p)"
  by (simp add: never_def makedirs_exist_ok_def split: option.splits node.splits)

lemma never_set_alias: "(\<And>p l. \<not> c (AppendText p l)) \<Longrightarrow> never c (set_alias env)"
  by (simp add: never_def set_alias_def Let_def split: option.splits node.splits fcontent.splits)

lemma never_is_port_in_used: "\<not> c (Bind pr p) \<Longrightarrow> never c (is_port_in_used env p pr)"
  by (simp add: never_def is_port_in_used_eq)

lemma never_first_free: "(\<And>p. \<not> c (Bind Udp p)) \<Longrightarrow> never c (first_free env ps)"
  by (induction ps) (auto intro!: never_intros never_is_port_in_used)

lemma never_server_port_get:
  "\<not> c Shuffle \<Longrightarrow> (\<And>p. \<not> c (Bind Udp p)) \<Longrightarrow> never c (server_port_get env self)"
  unfolding server_port_get_def
  by (intro never_intros never_emit never_first_free) simp_all

lemma never_Project_init: "(\<And>p. \<not> c (MakeDirs p)) \<Longrightarrow> never c Project_init"
  unfolding Project_init_def by (intro never_intros never_makedirs) simp

lemma never_User_gen_prog: "\<not> c Uuid4 \<Longrightarrow> \<not> c TokenHex \<Longrightarrow> never c (User_gen_prog env)"
  unfolding User_gen_prog_def by (intro never_intros never_emit) simp_all

lemma never_build_from_template:
  "(\<And>x. \<not> c (WriteText p x)) \<Longrightarrow> \<not> c (OsSystem ''systemctl daemon-reload'')
   \<Longrightarrow> never c (Service_build_from_template p t)"
  unfolding Service_build_from_template_def
  by (intro never_intros never_emit never_write_text) simp_all

lemma never_download_server:
  "(\<And>a b. \<not> c (UrlRetrieve a b)) \<Longrightarrow> (\<And>x. \<not> c (OsSystem (''chmod +x '' @ x)))
   \<Longrightarrow> \<not> c (OsSystem (''systemctl stop '' @ sv_name self)) \<Longrightarrow> \<not> c Sleep
   \<Longrightarrow> never c (Service_download_server self ws n)"
proof (induction self ws n rule: Service_download_server.induct)
  case (1 self ws)
  show ?case by (simp add: never_fail)
next
  case (2 self ws)
  have "never c (\<lambda>s. (Inr (), s(joinpath ws ''tuic'' \<mapsto> File Binary), []))"
    by (simp add: never_def)
  with 2 show ?case by (auto intro!: never_intros never_emit)
next
  case (3 self ws n)
  then show ?case by (auto intro!: never_intros never_emit simp: Service_stop_def)
qed

lemma never_Service_start:
  "\<not> c (OsSystem (''systemctl enable --now '' @ sv_name self)) \<Longrightarrow> never c (Service_start self)"
  unfolding Service_start_def by (rule never_emit)

lemma never_Service_status:
  "\<not> c (Popen (''systemctl is-active '' @ sv_name self)) \<Longrightarrow> never c (Service_status env self)"
  unfolding Service_status_def by (intro never_intros never_emit) simp_all

lemma never_gen_clients:
  "\<not> c Shuffle \<Longrightarrow> (\<And>p. \<not> c (Bind Udp p)) \<Longrightarrow>
   (\<And>x. \<not> c (WriteText client_nekoray_config x)) \<Longrightarrow>
   (\<And>x. \<not> c (WriteText client_meta_config x)) \<Longrightarrow>
   (\<And>x. \<not> c (WriteText client_singbox_config x)) \<Longrightarrow>
   never c (Template_gen_clients env t addr user sc)"
  unfolding Template_gen_clients_def
  by (intro never_intros never_server_port_get never_write_text) simp_all

lemma never_print_nekoray: "(\<And>x. \<not> c (Print x)) \<Longrightarrow> never c print_nekoray"
  by (simp add: never_def print_nekoray_def return_def fail_def emit_def
      split: option.splits node.splits fcontent.splits sum.splits prod.splits)

lemma never_print_singbox: "(\<And>x. \<not> c (Print x)) \<Longrightarrow> never c print_singbox"
  by (simp add: never_def print_singbox_def return_def fail_def emit_def
      split: option.splits node.splits fcontent.splits)

lemma never_print_clash_meta: "(\<And>x. \<not> c (Print x)) \<Longrightarrow> never c (print_clash_meta t m)"
  by (simp add: never_def print_clash_meta_def return_def fail_def emit_then Let_def
      split: option.splits node.splits)

lemma never_Template_parse: "(\<And>x. \<not> c (Print x)) \<Longrightarrow> never c (Template_parse t ps)"
  unfolding Template_parse_def
  by (intro never_intros never_print_nekoray never_print_singbox never_print_clash_meta) simp_all

lemma never_reset_shell: "(\<And>x. \<not> c (Execl x)) \<Longrightarrow> never c reset_shell"
  unfolding reset_shell_def by (intro never_intros never_emit) simp

lemma Service_build_eq:
  "Service_build_from_template p t s =
     (Inr \<lparr>sv_path = p, sv_name = ''tuic''\<rparr>,
      (case t of None \<Rightarrow> s | Some x \<Rightarrow> if x \<noteq> [] then s(p \<mapsto> File (Text x)) else s),
      (case t of None \<Rightarrow> []
       | Some x \<Rightarrow> if x \<noteq> [] then [WriteText p (Text x), OsSystem ''systemctl daemon-reload'']
                  else []))"
  by (simp add: Service_build_from_template_def seq_def bind_def return_def write_text_def
      emit_def split: option.splits)

lemma at_most_install_deploy:
  assumes "\<And>p. \<not> c (MakeDirs p)" "at_most c n (User_gen_prog env)" "\<And>p l. \<not> c (AppendText p l)"
    "\<not> c Shuffle" "\<And>p. \<not> c (Bind Udp p)" "\<And>x. \<not> c (WriteText service_path x)"
    "\<not> c (OsSystem ''systemctl daemon-reload'')" "\<not> c (OsSystem ''systemctl stop tuic'')"
    "\<not> c (OsSystem ''systemctl enable --now tuic'')"
    "\<And>x. \<not> c (OsSystem (''chmod +x '' @ x))"
    "\<And>a b. \<not> c (UrlRetrieve a b)" "\<not> c Sleep"
    "\<And>fc pk port. \<not> c (WriteText server_config
        (ServerJson (ServerConfig_from_automation
           (One (User_gen (urandom16 env) (token_bytes32 env))) fc pk port)))"
    "\<not> c (Popen ''systemctl is-active tuic'')"
    "\<And>x. \<not> c (WriteText client_nekoray_config x)"
    "\<And>x. \<not> c (WriteText client_meta_config x)"
    "\<And>x. \<not> c (WriteText client_singbox_config x)"
    "\<And>x. \<not> c (Print x)" "\<And>x. \<not> c (Execl x)"
  shows "at_most c n (install_deploy env ps port domain server_ip)"
proof -
  have u: "returns (User_gen_prog env) a \<Longrightarrow> a = User_gen (urandom16 env) (token_bytes32 env)" for a
    by (auto simp: returns_def User_gen_prog_def emit_then return_def split: prod.splits)
  have sv: "returns (Service_build_from_template p t) a \<Longrightarrow> sv_name a = ''tuic''" for p t a
    by (auto simp: returns_def Service_build_eq)
  show ?thesis
    unfolding install_deploy_def
    apply (rule at_most_bind_rest)
     apply (rule never_Project_init, rule assms)
    apply (rule at_most_bind_first)
     apply (rule assms)
    apply (drule u)
    apply (rule never_seq)
     apply (rule never_set_alias, rule assms)
    apply (rule never_bind)
     apply (intro never_intros never_server_port_get assms)
    apply (rule never_case_prod)
    apply (rule never_bind)
     apply (intro never_server_port_get assms)
    apply (rule never_case_prod)
    apply (rule never_Let)
    apply (rule never_bind_returns)
     apply (rule never_build_from_template)
      apply (rule assms)
     apply (rule assms)
    apply (drule sv)
    apply (rule never_seq)
     apply (rule never_download_server)
        apply (rule assms)
       apply (rule assms)
      apply (simp, rule assms)
     apply (rule assms)
    apply (rule never_seq)
     apply (rule never_write_text)
     apply (simp, rule assms)
    apply (rule never_seq)
     apply (rule never_Service_start)
     apply (simp, rule assms)
    apply (rule never_bind)
     apply (rule never_Service_status)
     apply (simp, rule assms)
    apply (rule never_case_prod)
    apply (rule never_if)
     apply (rule never_bind)
      apply (rule never_gen_clients; rule assms)
     apply (rule never_seq)
      apply (rule never_Template_parse, rule assms)
     apply (rule never_reset_shell, rule assms)
    apply (rule never_return)
    done
qed

section \<open>The install workflow, step by step\<close>

lemma install_eq:
  "install env ps s =
    (case validate_port env (arg_port ps) s of
       (Inl e, s1, es1) \<Rightarrow> (Inl e, s1, es1)
     | (Inr port, s1, es1) \<Rightarrow>
        (case validate_domain env (arg_domain ps) s1 of
           (Inl e, s2, es2) \<Rightarrow> (Inl e, s2, es1 @ es2)
         | (Inr (d, ip), s2, es2) \<Rightarrow>
             if s2 (fullchain d) \<noteq> None then
               (case install_deploy env ps port d ip s2 of
                  (r, s3, es3) \<Rightarrow> (r, s3, es1 @ es2 @ es3))
             else
               (case CertBot_run env (CertBot_init d) s2 of
                  (Inl e, s3, es3) \<Rightarrow> (Inl e, s3, es1 @ es2 @ es3)
                | (Inr b, s3, es3) \<Rightarrow>
                    (case install_deploy env ps port d ip s3 of
                       (r, s4, es4) \<Rightarrow> (r, s4, es1 @ es2 @ es3 @ es4)))))"
  by (simp add: install_def bind_def seq_def path_exists_def return_def
      split: prod.splits sum.splits)

lemma serv_peer_from_server:
  "serv_peer (fst (NekoRayConfig_from_server relay addr port ip)) =
     (case split_on CHR '':'' (addr @ '':'' @ py_str_int port) of
        [a, p] \<Rightarrow> Inr (a, p) | _ \<Rightarrow> Inl ValueError)"
  by (cases ip) (simp_all add: serv_peer_def NekoRayConfig_from_server_def Let_def
      ClientRelay_dict_def drop_none_def)

lemma gen_clients_eq:
  "0 \<le> p_server_port (t_project t) \<Longrightarrow>
   Template_gen_clients env t addr user sc s =
     (let port = p_server_port (t_project t); ip = Some (p_server_ip (t_project t));
          relay = ClientRelay_copy_from_server addr user sc port;
          relay1 = snd (NekoRayConfig_from_server relay addr port ip);
          nekoray = NekoJson (fst (NekoRayConfig_from_server relay addr port ip));
          meta = Text (contents (fst (ClashMetaConfig_from_server relay1 addr port ip)) @ [nl]);
          singbox = SingJson (fst (SingBoxConfig_from_server relay1 addr port ip))
      in (Inr t,
          s(client_nekoray_config \<mapsto> File nekoray, client_meta_config \<mapsto> File meta,
            client_singbox_config \<mapsto> File singbox),
          [WriteText client_nekoray_config nekoray, WriteText client_meta_config meta,
           WriteText client_singbox_config singbox]))"
  by (cases t; cases "t_project t")
     (simp add: Template_gen_clients_def server_port_get_cached bind_def seq_def write_text_def
      return_def Let_def split_def ClashMetaConfig_from_server_def SingBoxConfig_from_server_def)

lemma paths_neq [simp]:
  "client_nekoray_config \<noteq> client_meta_config" "client_nekoray_config \<noteq> client_singbox_config"
  "client_meta_config \<noteq> client_singbox_config" "client_meta_config \<noteq> client_nekoray_config"
  "client_singbox_config \<noteq> client_nekoray_config" "client_singbox_config \<noteq> client_meta_config"
  "server_config \<noteq> client_nekoray_config" "server_config \<noteq> client_meta_config"
  "server_config \<noteq> client_singbox_config" "client_nekoray_config \<noteq> server_config"
  "client_meta_config \<noteq> server_config" "client_singbox_config \<noteq> server_config"
  "service_path \<noteq> server_config" "server_config \<noteq> service_path"
  by (simp_all add: client_nekoray_config_def client_meta_config_def client_singbox_config_def
      server_config_def service_path_def joinpath_def workstation_def)

lemma ex_username:
  "username (User_gen 0x0123456789abcdef0123456789abcdef r) = ''01234567-89ab-4def-8123-456789abcdef''"
  by (simp add: User_gen_def str_uuid_def uuid4_def hex_width_def hexdigit_def Let_def upt_rec)

lemma ex_password:
  "password (User_gen r 0xfedcba9876543210fedcba9876543210fedcba9876543210fedcba9876543210) = ''fedcba9876543210''"
  by (simp add: User_gen_def token_hex_def hex_width_def hexdigit_def Let_def upt_rec)

lemmas run_simps = install_eq validate_port_eq validate_domain_eq install_deploy_def
      str_or_def
      bind_def seq_def return_def fail_def emit_def Project_init_def makedirs_exist_ok_def
      User_gen_prog_def set_alias_def path_bash_aliases_def Service_build_eq
      Service_start_def Service_status_def write_text_def server_port_get_cached
      gen_clients_eq Let_def strip_def is_space_def Template_parse_def print_nekoray_def
      print_clash_meta_def print_singbox_def reset_shell_def serv_peer_from_server
      py_str_int_def digit_char_def alias_line_def nl_def sq_def
      fullchain_def workstation_def joinpath_def service_path_def server_config_def
      client_nekoray_config_def client_meta_config_def client_singbox_config_def

lemma never_CertBot_run:
  assumes "\<And>n. \<not> c (Enter n)" "\<And>p. \<not> c (RmTree p)" "\<And>x. \<not> c (OsSystem x)"
    "\<And>x. \<not> c (Popen (certonly_cmd x))" "\<not> c (Bind Tcp 80)"
  shows "never c (CertBot_run env (CertBot_init d))"
  unfolding never_def
proof (intro allI)
  fix s
  have rm: "\<forall>e\<in>set (map RmTree ps). \<not> c e" for ps using assms(2) by simp
  show "\<forall>e\<in>set (events (CertBot_run env (CertBot_init d) s)). \<not> c e"
  proof (cases "certbot_stderr env")
    case None
    from CertBot_run_not_started [OF None, of d s] rm assms show ?thesis
      by (auto split: if_splits)
  next
    case (Some out)
    from CertBot_run_started [OF Some, of d s] rm assms show ?thesis
      by (auto split: if_splits)
  qed
qed

lemma at_most_install:
  assumes "\<And>p. \<not> c (Bind Udp p)" "\<not> c Input" "\<And>d. \<not> c (GetAddrInfo d)" "\<And>u. \<not> c (UrlOpen u)"
    and "\<And>port d ip. at_most c n (install_deploy env ps port d ip)"
    and "s (fullchain (str_or (arg_domain ps) (stdin_line env))) = None \<Longrightarrow>
         never c (CertBot_run env (CertBot_init (str_or (arg_domain ps) (stdin_line env))))"
  shows "length (filter c (events (install env ps s))) \<le> n"
proof -
  let ?d = "str_or (arg_domain ps) (stdin_line env)"
  have dep: "install_deploy env ps port d ip s' = (r, s3, es3) \<Longrightarrow> length (filter c es3) \<le> n"
    for port d ip s' r s3 es3
  proof -
    assume a: "install_deploy env ps port d ip s' = (r, s3, es3)"
    from assms(5) [of port d ip]
    have "length (filter c (events (install_deploy env ps port d ip s'))) \<le> n"
      unfolding at_most_def by (rule spec)
    with a show ?thesis by simp
  qed
  obtain r1 s1 es1 where vp: "validate_port env (arg_port ps) s = (r1, s1, es1)"
    by (cases "validate_port env (arg_port ps) s")
  then have s1: "s1 = s" and c1: "filter c es1 = []"
    using assms(1) by (auto simp: validate_port_eq split: option.splits if_splits)
  obtain r2 s2 es2 where vd: "validate_domain env (arg_domain ps) s = (r2, s2, es2)"
    by (cases "validate_domain env (arg_domain ps) s")
  then have s2: "s2 = s" and c2: "filter c es2 = []"
    and d2: "\<And>d ip. r2 = Inr (d, ip) \<Longrightarrow> d = ?d"
    using assms(2-4) by (auto simp: validate_domain_eq Let_def split: option.splits if_splits)
  show ?thesis
  proof (cases r1)
    case (Inl e)
    with vp c1 show ?thesis by (simp add: install_eq)
  next
    case port: (Inr port)
    show ?thesis
    proof (cases r2)
      case (Inl e)
      with vp vd port s1 c1 c2 show ?thesis by (simp add: install_eq)
    next
      case (Inr x)
      obtain d ip where x: "x = (d, ip)" by (cases x)
      with Inr d2 have d: "d = ?d" by simp
      show ?thesis
      proof (cases "s (fullchain ?d) = None")
        case False
        obtain r3 s3 es3 where dp: "install_deploy env ps port ?d ip s = (r3, s3, es3)"
          by (cases "install_deploy env ps port ?d ip s")
        from dep [OF dp] vp vd port Inr x d s1 s2 c1 c2 False dp
        show ?thesis by (simp add: install_eq)
      next
        case True
        obtain r3 s3 es3 where cb: "CertBot_run env (CertBot_init ?d) s = (r3, s3, es3)"
          by (cases "CertBot_run env (CertBot_init ?d) s")
        from assms(6) [OF True] cb have c3: "filter c es3 = []"
          by (auto simp: never_def filter_empty_conv dest: spec [of _ s])
        show ?thesis
        proof (cases r3)
          case (Inl e)
          with vp vd port Inr x d s1 s2 c1 c2 c3 True cb show ?thesis by (simp add: install_eq)
        next
          case b: (Inr b)
          obtain r4 s4 es4 where dp: "install_deploy env ps port ?d ip s3 = (r4, s4, es4)"
            by (cases "install_deploy env ps port ?d ip s3")
          from dep [OF dp] vp vd port Inr x d s1 s2 c1 c2 c3 True cb b dp
          show ?thesis by (simp add: install_eq)
        qed
      qed
    qed
  qed
qed

lemma at_most_User_gen_prog: "at_most (\<lambda>e. e = Uuid4) 1 (User_gen_prog env)"
  "at_most (\<lambda>e. e = TokenHex) 1 (User_gen_prog env)"
  by (simp_all add: at_most_def User_gen_prog_def emit_then return_def)

text \<open>
  C9. When the full chain of the domain exists, an install run has no event of the
  certificate workflow: no call of the certificate tool, none of the package and port-80
  commands of its hooks.
\<close>

theorem install_skips_issuance:
  assumes "s (fullchain (str_or (arg_domain ps) (stdin_line env))) \<noteq> None"
  shows "list_all (\<lambda>e. \<not> cert_event e) (events (install env ps s))"
proof -
  have "never cert_event (User_gen_prog env)"
    by (rule never_User_gen_prog) simp_all
  then have u: "at_most cert_event 0 (User_gen_prog env)"
    by (simp add: never_at_most)
  have dep: "at_most cert_event 0 (install_deploy env ps port d ip)" for port d ip
    by (rule at_most_install_deploy [OF _ u])
       (simp_all add: apt_update_def apt_install_def stop_nginx_def kill_port_80_def
        restart_nginx_def enable_timer_def)
  have "length (filter cert_event (events (install env ps s))) \<le> 0"
    by (rule at_most_install) (use assms dep in simp_all)
  then show ?thesis by (simp add: list_all_iff filter_empty_conv)
qed

lemma example_run_outcome:
  "outcome (install example_env example_params fs_with_cert) = Inl Replaced"
  by (simp add: run_simps example_env_def example_params_def fs_with_cert_def fs_empty_def)

theorem install_skips_issuance_witness:
  "fs_with_cert (fullchain (str_or (arg_domain example_params) (stdin_line example_env))) \<noteq> None \<and>
   list_all (\<lambda>e. \<not> cert_event e) (events (install example_env example_params fs_with_cert)) \<and>
   outcome (install example_env example_params fs_with_cert) = Inl Replaced"
proof -
  have h: "fs_with_cert (fullchain (str_or (arg_domain example_params) (stdin_line example_env))) \<noteq> None"
    by (simp add: fs_with_cert_def example_params_def str_or_def)
  from install_skips_issuance [of fs_with_cert example_params example_env] h example_run_outcome
  show ?thesis by simp
qed

lemma length_hex_width [simp]: "length (hex_width n v) = n"
  by (simp add: hex_width_def)

lemma is_hex_hexdigit: "d < 16 \<Longrightarrow> is_hex (hexdigit d)"
proof -
  assume "d < 16"
  then have "d < length ''0123456789abcdef''" by simp
  then have "''0123456789abcdef'' ! d \<in> set ''0123456789abcdef''" by (rule nth_mem)
  then show ?thesis by (simp only: is_hex_def hexdigit_def)
qed

lemma hex_width_is_hex: "list_all is_hex (hex_width n v)"
  by (simp add: hex_width_def list_all_iff is_hex_hexdigit)

lemma list_all_take_drop:
  "list_all P xs \<Longrightarrow> list_all P (take n xs)" "list_all P xs \<Longrightarrow> list_all P (drop n xs)"
  by (auto simp: list_all_iff dest: in_set_takeD in_set_dropD)

lemma uuid_shaped_segments:
  assumes "length a = 8" "length b = 4" "length c = 4" "length d = 4" "length e = 12"
    and "list_all is_hex a" "list_all is_hex b" "list_all is_hex c" "list_all is_hex d"
    "list_all is_hex e"
  shows "uuid_shaped (a @ ''-'' @ b @ ''-'' @ c @ ''-'' @ d @ ''-'' @ e)"
  using assms by (simp add: uuid_shaped_def nth_append)

lemma uuid_shaped_str_uuid: "uuid_shaped (str_uuid u)"
  unfolding str_uuid_def Let_def
  by (rule uuid_shaped_segments) (simp_all add: list_all_take_drop hex_width_is_hex)

lemma User_gen_shape:
  "uuid_shaped (username (User_gen r1 r2))" "length (password (User_gen r1 r2)) = 16"
  "list_all is_hex (password (User_gen r1 r2))"
  by (simp_all add: User_gen_def uuid_shaped_str_uuid token_hex_def list_all_take_drop
      hex_width_is_hex)

lemma users_dict_one: "users_dict [u] = [(username u, password u)]"
  by (simp add: users_dict_def)

lemma sc_users_from_automation:
  "sc_users (ServerConfig_from_automation (One u) fc pk port) = [(username u, password u)]"
  by (simp add: ServerConfig_from_automation_def ServerConfig_post_init_def users_dict_one)

lemma foreign_credential_other_path:
  "p \<noteq> server_config \<Longrightarrow> \<not> foreign_credential u (WriteText p x)"
  by (cases x) simp_all

text \<open>
  C4, amended. The generated credential has a UUID-shaped username and a password of
  exactly 16 hex characters. An install run draws it at most once, and every server
  configuration the run writes holds exactly the credential drawn from that run's random
  bytes, whatever was persisted before.
\<close>

theorem install_credential:
  "uuid_shaped (username (User_gen r1 r2)) \<and>
   length (password (User_gen r1 r2)) = 16 \<and>
   list_all is_hex (password (User_gen r1 r2)) \<and>
   count_list (events (install env ps s)) Uuid4 \<le> 1 \<and>
   count_list (events (install env ps s)) TokenHex \<le> 1 \<and>
   list_all (\<lambda>e. \<not> foreign_credential (User_gen (urandom16 env) (token_bytes32 env)) e)
     (events (install env ps s))"
proof -
  let ?u = "User_gen (urandom16 env) (token_bytes32 env)"
  have cnt: "count_list xs x = length (filter (\<lambda>e. e = x) xs)" for xs and x :: event
    by (induction xs) auto
  have d1: "at_most (\<lambda>e. e = Uuid4) 1 (install_deploy env ps port d ip)" for port d ip
    by (rule at_most_install_deploy [OF _ at_most_User_gen_prog(1)]) simp_all
  have d2: "at_most (\<lambda>e. e = TokenHex) 1 (install_deploy env ps port d ip)" for port d ip
    by (rule at_most_install_deploy [OF _ at_most_User_gen_prog(2)]) simp_all
  have "never (foreign_credential ?u) (User_gen_prog env)"
    by (rule never_User_gen_prog) simp_all
  then have u: "at_most (foreign_credential ?u) 0 (User_gen_prog env)"
    by (simp add: never_at_most)
  have d3: "at_most (foreign_credential ?u) 0 (install_deploy env ps port d ip)" for port d ip
    by (rule at_most_install_deploy [OF _ u])
       (simp_all add: sc_users_from_automation foreign_credential_other_path)
  have c1: "length (filter (\<lambda>e. e = Uuid4) (events (install env ps s))) \<le> 1"
    by (rule at_most_install) (use d1 in \<open>simp_all add: never_CertBot_run\<close>)
  have c2: "length (filter (\<lambda>e. e = TokenHex) (events (install env ps s))) \<le> 1"
    by (rule at_most_install) (use d2 in \<open>simp_all add: never_CertBot_run\<close>)
  have "length (filter (foreign_credential ?u) (events (install env ps s))) \<le> 0"
    by (rule at_most_install) (use d3 in \<open>simp_all add: never_CertBot_run\<close>)
  then have c3: "list_all (\<lambda>e. \<not> foreign_credential ?u e) (events (install env ps s))"
    by (simp add: list_all_iff filter_empty_conv)
  from c1 c2 c3 show ?thesis by (simp add: cnt User_gen_shape)
qed

lemma User_gen_example: "User_gen (urandom16 example_env) (token_bytes32 example_env) = example_user"
proof -
  have "username (User_gen (urandom16 example_env) (token_bytes32 example_env)) = username example_user"
    by (simp add: example_env_def example_user_def ex_username)
  moreover
  have "password (User_gen (urandom16 example_env) (token_bytes32 example_env)) = password example_user"
    by (simp add: example_env_def example_user_def ex_password)
  ultimately show ?thesis by simp
qed

lemma User_gen_rerun: "User_gen (urandom16 env_rerun) (token_bytes32 env_rerun) = rerun_user"
proof -
  have "username (User_gen (urandom16 env_rerun) (token_bytes32 env_rerun)) = username rerun_user"
    by (simp add: env_rerun_def example_env_def rerun_user_def User_gen_def str_uuid_def
        uuid4_def hex_width_def hexdigit_def Let_def upt_rec)
  moreover
  have "password (User_gen (urandom16 env_rerun) (token_bytes32 env_rerun)) = password rerun_user"
    by (simp add: env_rerun_def example_env_def rerun_user_def User_gen_def token_hex_def
        hex_width_def hexdigit_def Let_def upt_rec)
  ultimately show ?thesis by simp
qed

lemma example_run_server_config:
  "fs_of (install example_env example_params fs_with_cert) server_config
     = Some (File (ServerJson (ServerConfig_from_automation
          (One (User_gen (urandom16 example_env) (token_bytes32 example_env)))
          (fullchain ''relay.example.com'') (privkey ''relay.example.com'') 50000)))"
  by (simp add: run_simps example_env_def example_params_def fs_with_cert_def fs_empty_def)

lemma example_rerun_server_config:
  "fs_of (install env_rerun example_params (fs_of (install example_env example_params fs_with_cert)))
     server_config
     = Some (File (ServerJson (ServerConfig_from_automation
          (One (User_gen (urandom16 env_rerun) (token_bytes32 env_rerun)))
          (fullchain ''relay.example.com'') (privkey ''relay.example.com'') 50000)))"
  by (simp add: run_simps env_rerun_def example_env_def example_params_def fs_with_cert_def
      fs_empty_def)

lemma example_run_writes:
  "WriteText server_config (ServerJson (ServerConfig_from_automation
          (One (User_gen (urandom16 example_env) (token_bytes32 example_env)))
          (fullchain ''relay.example.com'') (privkey ''relay.example.com'') 50000))
   \<in> set (events (install example_env example_params fs_with_cert))"
  by (simp add: run_simps example_env_def example_params_def fs_with_cert_def fs_empty_def)

text \<open>
  C4, as the claim states it, fails: after a first install the persisted credential is
  the one drawn in that run, and after a second install over that deployment it is
  another one.
\<close>

theorem install_rerun_regenerates_counterexample:
  "fs_of (install example_env example_params fs_with_cert) server_config
     = Some (File (ServerJson (ServerConfig_from_automation (One example_user)
          (fullchain ''relay.example.com'') (privkey ''relay.example.com'') 50000))) \<and>
   fs_of (install env_rerun example_params (fs_of (install example_env example_params fs_with_cert)))
     server_config
     = Some (File (ServerJson (ServerConfig_from_automation (One rerun_user)
          (fullchain ''relay.example.com'') (privkey ''relay.example.com'') 50000))) \<and>
   example_user \<noteq> rerun_user"
proof -
  have "username example_user \<noteq> username rerun_user"
    by (simp add: example_user_def rerun_user_def)
  then have "example_user \<noteq> rerun_user" by auto
  with example_run_server_config example_rerun_server_config show ?thesis
    by (simp add: User_gen_example User_gen_rerun)
qed

theorem install_credential_witness:
  "User_gen (urandom16 example_env) (token_bytes32 example_env) = example_user \<and>
   uuid_shaped (username example_user) \<and>
   length (password example_user) = 16 \<and>
   list_all is_hex (password example_user) \<and>
   count_list (events (install example_env example_params fs_with_cert)) Uuid4 \<le> 1 \<and>
   list_all (\<lambda>e. \<not> foreign_credential example_user e)
     (events (install example_env example_params fs_with_cert)) \<and>
   WriteText server_config (ServerJson (ServerConfig_from_automation (One example_user)
       (fullchain ''relay.example.com'') (privkey ''relay.example.com'') 50000))
     \<in> set (events (install example_env example_params fs_with_cert))"
  using install_credential [of "urandom16 example_env" "token_bytes32 example_env" example_env
      example_params fs_with_cert] example_run_writes
  by (simp add: User_gen_example)

section \<open>The artifacts of one run\<close>







end
